theory Spec2Isabelle
  imports Main "HOL-Library.Multiset"
begin

section \<open>Tokens and syntax trees\<close>

text \<open>
  The scanner (\<^verbatim>\<open>scan/Token.ts\<close>, \<^verbatim>\<open>scan/TokenType.ts\<close>) and the expression
  constructors (\<^verbatim>\<open>parse/Expr.ts\<close>) are used by the parser and the interpreter but are
  not part of the sources at hand. The types below are the ones the code of
  \<^verbatim>\<open>Parser.ts\<close>, \<^verbatim>\<open>Stmt.ts\<close> and \<^verbatim>\<open>Interpreter.ts\<close> reads and builds.
\<close>

text \<open>
  Modelled from the spec: \<^verbatim>\<open>Primitive\<close> of \<^verbatim>\<open>scan/Token.ts\<close>, the literal payload of a
  token: a number, a string, or nothing. The parser and the interpreter only pass
  numbers along, so the payload of a number is an integer here.
\<close>

datatype primitive = PNumber int | PString string | PNull

text \<open>
  Modelled from the spec: the members of \<^verbatim>\<open>TokenType\<close> that \<^verbatim>\<open>Parser.ts\<close> names.
\<close>

datatype token_type =
  LeftParen | RightParen | LeftBracket | RightBracket | Comma | ColonColon | Equal
  | Operator | Identifier | Number | String | CodeLiteral | LineBreak | EOF

text \<open>
  Modelled from the spec: \<^verbatim>\<open>Token\<close>, with its type, source text, literal value and
  the source span \<^verbatim>\<open>from\<close>..\<^verbatim>\<open>to\<close>.
\<close>

datatype token =
  Token (ttype: token_type) (lexeme: string) (literal: primitive) (from_pos: nat) (to_pos: nat)

datatype side = LeftSide | RightSide

datatype associativity = LeftAssoc | RightAssoc

text \<open>
  Modelled from the spec: the tagged union \<^verbatim>\<open>Expr\<close> of \<^verbatim>\<open>parse/Expr.ts\<close>, one
  constructor for each \<^verbatim>\<open>Expr.Type\<close>, with the fields in the order of the constructor
  functions the parser calls.
\<close>

datatype expr =
  Literal primitive token
  | List "expr list"
  | Grouping token expr token
  | Binary expr token expr int
  | Section token expr side
  | Variable token
  | Application expr expr
  | Empty

text \<open>\<^verbatim>\<open>Stmt.ts\<close>.\<close>

datatype stmt =
  Expression expr
  | Binding token "token list" token

section \<open>The parser\<close>

text \<open>
  The operator table: \<^verbatim>\<open>operators.get(lexeme)\<close> is a pair of precedence and associativity,
  or undefined.
\<close>

type_synonym operators = "string \<rightharpoonup> int \<times> associativity"

text \<open>
  Modelled from the spec: a precedence of the table is an integer. The numbers of the
  program are double-precision floats, so the sum \<^verbatim>\<open>opPrecedence + 1\<close> of \<^verbatim>\<open>expression\<close> is
  the exact sum rounded to the nearest double, and to the one with the even significand
  when two doubles are equally near. A double has 53 significant bits: \<open>excess_bits n\<close>
  is the number of bits that \<open>n\<close> has beyond 53, and \<open>round_to_double\<close> rounds these
  low bits away. Every integer up to \<open>2\<^sup>5\<^sup>3\<close> in magnitude is a double, and there the sum
  is exact; further up it is not: \<open>2\<^sup>5\<^sup>3 + 1\<close> is \<open>2\<^sup>5\<^sup>3\<close>. The comparison \<^verbatim>\<open><\<close> of two
  doubles that are integers is the comparison of the integers.
\<close>

function excess_bits :: "nat \<Rightarrow> nat" where
  "excess_bits n = (if n < 9007199254740992 then 0 else Suc (excess_bits (n div 2)))"
  by pat_completeness auto

termination
  by (relation "measure (\<lambda>n. n)") simp_all

definition round_to_double :: "int \<Rightarrow> int" where
  "round_to_double i =
     (let n = nat \<bar>i\<bar>;
          e = excess_bits n;
          q = n div 2 ^ e;
          r = n mod 2 ^ e;
          m = (if 2 * r < 2 ^ e \<or> (2 * r = 2 ^ e \<and> even q) then q else q + 1)
      in sgn i * int (m * 2 ^ e))"

definition number_add :: "int \<Rightarrow> int \<Rightarrow> int" where
  "number_add x y = round_to_double (x + y)"

text \<open>
  What a parser function can throw: a \<^verbatim>\<open>ParseError\<close> carrying a token or an expression,
  or any other value (\<^verbatim>\<open>new Error(...)\<close>, a thrown string), which \<^verbatim>\<open>parse\<close> does not catch.
  \<open>OutOfFuel\<close> is not a value of the program: it is the answer of the model when the
  bound on the depth of the recursion is too small for the input.
\<close>

datatype source = TokenSource token | ExprSource expr

datatype failure = ParseError source string | Exception string | OutOfFuel

type_synonym 'a parsed = "failure + 'a \<times> token list"

subsection \<open>The cursor\<close>

text \<open>
  Modelled from the spec: the cursor operations of \<^verbatim>\<open>BaseParser\<close>, which is not part of
  the sources at hand. The parser state is the list of the tokens not yet consumed. The
  scanner ends every stream with an \<open>EOF\<close> token; reading at the end of the list reads
  an \<open>EOF\<close> token as well.
\<close>

definition peek :: "token list \<Rightarrow> token" where
  "peek ts = (case ts of [] \<Rightarrow> Token EOF [] PNull 0 0 | t # _ \<Rightarrow> t)"

definition peekNext :: "token list \<Rightarrow> token" where
  "peekNext ts = peek (tl ts)"

definition isAtEnd :: "token list \<Rightarrow> bool" where
  "isAtEnd ts = (ttype (peek ts) = EOF)"

text \<open>
  Modelled from the spec: \<^verbatim>\<open>advance\<close> moves the cursor unless it is at the end. The
  token it returns (\<^verbatim>\<open>previous()\<close>) is the token that \<open>peek\<close> read before the move;
  the parser calls it only after it has seen a token that is not \<open>EOF\<close>.
\<close>

definition advance :: "token list \<Rightarrow> token list" where
  "advance ts = (if isAtEnd ts then ts else tl ts)"

definition check :: "token_type \<Rightarrow> token list \<Rightarrow> bool" where
  "check ty ts = (\<not> isAtEnd ts \<and> ttype (peek ts) = ty)"

definition consume :: "token_type \<Rightarrow> string \<Rightarrow> token list \<Rightarrow> token parsed" where
  "consume ty message ts =
     (if check ty ts then Inr (peek ts, advance ts)
      else Inl (ParseError (TokenSource (peek ts)) message))"

subsection \<open>Messages\<close>

definition undefined_operator :: "string \<Rightarrow> string" where
  "undefined_operator l = ''Undefined operator '' @ [CHR 0x22] @ l @ [CHR 0x22]"

definition missing_expression :: "bool \<Rightarrow> bool \<Rightarrow> string \<Rightarrow> string" where
  "missing_expression lNull rNull l =
     ''Missing expression '' @ (if lNull then ''before'' else [])
       @ (if lNull \<and> rNull then '' and '' else [])
       @ (if rNull then ''after'' else [])
       @ '' the '' @ [CHR 0x22] @ l @ [CHR 0x22] @ '' operator''"

definition unit_literal :: string where
  "unit_literal = ''Encountered unit literal, but unit isn't supported yet''"

definition type_annotation :: string where
  "type_annotation = ''Parsing type annotations isn't supported yet''"

definition section_precedence :: string where
  "section_precedence = ''Section operator must have lower precedence than expression''"

subsection \<open>Expressions\<close>

definition peekFunctionTerm :: "token list \<Rightarrow> bool" where
  "peekFunctionTerm ts =
     (let nextType = ttype (peek ts) in
        nextType = Identifier \<or> nextType = LeftParen \<or> nextType = LeftBracket
        \<or> nextType = Number \<or> nextType = String)"

text \<open>
  The test of \<^verbatim>\<open>grouping\<close> on the operand of a section:
  \<^verbatim>\<open>expr.type === Expr.Type.Binary && expr.precedence < precedence\<close>.
\<close>

fun binary_below :: "expr \<Rightarrow> int \<Rightarrow> bool" where
  "binary_below (Binary l operator r q) precedence = (q < precedence)"
| "binary_below e precedence = False"

text \<open>
  The mutually recursive methods \<^verbatim>\<open>expression\<close>, \<^verbatim>\<open>application\<close>, \<^verbatim>\<open>grouping\<close> and
  \<^verbatim>\<open>functionTerm\<close>. Each \<^verbatim>\<open>while\<close> loop is a function of its own (\<open>expression_loop\<close>,
  \<open>application_loop\<close>, \<open>list_loop\<close>) whose arguments are the variables the loop updates.
  The first argument bounds the depth of the calls; every call and every turn of a loop
  uses one unit.
\<close>

function (sequential) expression :: "nat \<Rightarrow> operators \<Rightarrow> int \<Rightarrow> token list \<Rightarrow> expr parsed"
  and expression_loop :: "nat \<Rightarrow> operators \<Rightarrow> int \<Rightarrow> expr \<Rightarrow> token list \<Rightarrow> expr parsed"
  and application :: "nat \<Rightarrow> operators \<Rightarrow> token list \<Rightarrow> expr parsed"
  and application_loop :: "nat \<Rightarrow> operators \<Rightarrow> expr \<Rightarrow> token list \<Rightarrow> expr parsed"
  and grouping :: "nat \<Rightarrow> operators \<Rightarrow> token list \<Rightarrow> expr parsed"
  and functionTerm :: "nat \<Rightarrow> operators \<Rightarrow> token list \<Rightarrow> expr parsed"
  and list_loop :: "nat \<Rightarrow> operators \<Rightarrow> expr list \<Rightarrow> token list \<Rightarrow> expr parsed"
where
  "expression 0 ops precedence ts = Inl OutOfFuel"
| "expression (Suc n) ops precedence ts =
     (case application n ops ts of
        Inl e \<Rightarrow> Inl e
      | Inr (left, ts1) \<Rightarrow> expression_loop n ops precedence left ts1)"
| "expression_loop 0 ops precedence left ts = Inl OutOfFuel"
| "expression_loop (Suc n) ops precedence left ts =
     (if ttype (peek ts) = Operator then
        (case ops (lexeme (peek ts)) of
           None \<Rightarrow> Inl (ParseError (TokenSource (peek ts)) (undefined_operator (lexeme (peek ts))))
         | Some (opPrecedence, opAssociativity) \<Rightarrow>
             if opPrecedence < precedence then Inr (left, ts)
             else if ttype (peekNext ts) = RightParen then Inr (left, ts)
             else
               (let operator = peek ts in
                case expression n ops
                       (if opAssociativity = LeftAssoc then number_add opPrecedence 1
                        else opPrecedence)
                       (advance ts) of
                  Inl e \<Rightarrow> Inl e
                | Inr (right, ts1) \<Rightarrow>
                    (let lNull = (left = Empty); rNull = (right = Empty) in
                     if lNull \<or> rNull then
                       Inl (ParseError (TokenSource operator)
                              (missing_expression lNull rNull (lexeme operator)))
                     else expression_loop n ops precedence
                            (Binary left operator right opPrecedence) ts1)))
      else Inr (left, ts))"
| "application 0 ops ts = Inl OutOfFuel"
| "application (Suc n) ops ts =
     (case grouping n ops ts of
        Inl e \<Rightarrow> Inl e
      | Inr (expr, ts1) \<Rightarrow> application_loop n ops expr ts1)"
| "application_loop 0 ops expr ts = Inl OutOfFuel"
| "application_loop (Suc n) ops expr ts =
     (if peekFunctionTerm ts then
        (case grouping n ops ts of
           Inl e \<Rightarrow> Inl e
         | Inr (right, ts1) \<Rightarrow> application_loop n ops (Application expr right) ts1)
      else Inr (expr, ts))"
| "grouping 0 ops ts = Inl OutOfFuel"
| "grouping (Suc n) ops ts =
     (if check LeftParen ts then
        (let leftParen = peek ts;
             ts1 = advance ts;
             leftOp = (if ttype (peek ts1) = Operator then Some (peek ts1) else None);
             ts2 = (if ttype (peek ts1) = Operator then advance ts1 else ts1)
         in
         if check RightParen ts2 then
           (case leftOp of
              Some name \<Rightarrow> Inr (Variable name, advance ts2)
            | None \<Rightarrow> Inl (Exception unit_literal))
         else
           (case expression n ops 0 ts2 of
              Inl e \<Rightarrow> Inl e
            | Inr (expr, ts3) \<Rightarrow>
                (let rightOp = (if ttype (peek ts3) = Operator then Some (peek ts3) else None);
                     ts4 = (if ttype (peek ts3) = Operator then advance ts3 else ts3)
                 in
                 case consume RightParen ''Expect ')' after expression.'' ts4 of
                   Inl e \<Rightarrow> Inl e
                 | Inr (rightParen, ts5) \<Rightarrow>
                     if leftOp \<noteq> None \<or> rightOp \<noteq> None then
                       (if leftOp \<noteq> None \<and> rightOp \<noteq> None then
                          Inl (ParseError (TokenSource rightParen) ''Expect expression.'')
                        else
                          (let operator = (case leftOp of Some l \<Rightarrow> l | None \<Rightarrow> the rightOp);
                               side = (if leftOp \<noteq> None then LeftSide else RightSide)
                           in
                           case ops (lexeme operator) of
                             None \<Rightarrow>
                               Inl (ParseError (TokenSource (peek ts5))
                                      (undefined_operator (lexeme (peek ts5))))
                           | Some (precedence, opAssociativity) \<Rightarrow>
                               if binary_below expr precedence then
                                 Inl (ParseError (TokenSource operator) section_precedence)
                               else
                                 Inr (Grouping leftParen (Section operator expr side) rightParen,
                                      ts5)))
                     else Inr (Grouping leftParen expr rightParen, ts5))))
      else functionTerm n ops ts)"
| "functionTerm 0 ops ts = Inl OutOfFuel"
| "functionTerm (Suc n) ops ts =
     (if check Number ts \<or> check String ts then
        Inr (Literal (literal (peek ts)) (peek ts), advance ts)
      else if check Identifier ts then Inr (Variable (peek ts), advance ts)
      else if check LeftBracket ts then list_loop n ops [] (advance ts)
      else Inr (Empty, ts))"
| "list_loop 0 ops items ts = Inl OutOfFuel"
| "list_loop (Suc n) ops items ts =
     (if check RightBracket ts then Inr (List items, advance ts)
      else if isAtEnd ts then
        Inl (ParseError (TokenSource (peek ts)) ''Unterminated list literal'')
      else
        (case (if items \<noteq> [] then consume Comma ''Expect ',' after list items'' ts
               else Inr (peek ts, ts)) of
           Inl e \<Rightarrow> Inl e
         | Inr (comma, ts1) \<Rightarrow>
             (case expression n ops 0 ts1 of
                Inl e \<Rightarrow> Inl e
              | Inr (item, ts2) \<Rightarrow> list_loop n ops (items @ [item]) ts2)))"
  by pat_completeness auto

termination
  by (relation "measure (\<lambda>x. case x of
        Inl (Inl (n, _)) \<Rightarrow> n
      | Inl (Inr (Inl (n, _))) \<Rightarrow> n
      | Inl (Inr (Inr (n, _))) \<Rightarrow> n
      | Inr (Inl (Inl (n, _))) \<Rightarrow> n
      | Inr (Inl (Inr (n, _))) \<Rightarrow> n
      | Inr (Inr (Inl (n, _))) \<Rightarrow> n
      | Inr (Inr (Inr (n, _))) \<Rightarrow> n)") simp_all

subsection \<open>Statements\<close>

fun variable :: "expr \<Rightarrow> failure + token" where
  "variable (Variable name) = Inr name"
| "variable varExp =
     Inl (ParseError (ExprSource varExp)
            ''Expected variable on the left-hand side of assignment'')"

text \<open>
  \<^verbatim>\<open>parseFunlhs\<close> returns a list that is never empty, which \<^verbatim>\<open>declaration\<close> takes apart
  as \<^verbatim>\<open>[name, ...args]\<close>; here it returns the pair of the head and the rest.
\<close>

fun parseFunlhs :: "expr \<Rightarrow> failure + token \<times> token list" where
  "parseFunlhs (Application l r) =
     (case parseFunlhs l of
        Inl e \<Rightarrow> Inl e
      | Inr (name, args) \<Rightarrow>
          (case variable r of Inl e \<Rightarrow> Inl e | Inr v \<Rightarrow> Inr (name, args @ [v])))"
| "parseFunlhs e = (case variable e of Inl e' \<Rightarrow> Inl e' | Inr v \<Rightarrow> Inr (v, []))"

text \<open>\<^verbatim>\<open>declaration\<close> (the name alone is a keyword of the prover).\<close>

definition declaration_stmt :: "nat \<Rightarrow> operators \<Rightarrow> token list \<Rightarrow> stmt parsed" where
  "declaration_stmt n ops ts =
     (case expression n ops 0 ts of
        Inl e \<Rightarrow> Inl e
      | Inr (expr, ts1) \<Rightarrow>
          if ttype (peek ts1) = ColonColon then Inl (Exception type_annotation)
          else if ttype (peek ts1) = Equal then
            (case parseFunlhs expr of
               Inl e \<Rightarrow> Inl e
             | Inr (name, args) \<Rightarrow>
                 (case consume CodeLiteral
                         ''Right-hand sign of an assignment variable must be foreign Javascript block''
                         (advance ts1) of
                    Inl e \<Rightarrow> Inl e
                  | Inr (initializer, ts2) \<Rightarrow> Inr (Binding name args initializer, ts2)))
          else Inr (Expression expr, ts1))"

definition statement :: "nat \<Rightarrow> operators \<Rightarrow> token list \<Rightarrow> stmt parsed" where
  "statement n ops ts =
     (case declaration_stmt n ops ts of
        Inl e \<Rightarrow> Inl e
      | Inr (s, ts1) \<Rightarrow>
          if \<not> isAtEnd ts1 then
            (case consume LineBreak ''Expect new line after expression.'' ts1 of
               Inl e \<Rightarrow> Inl e
             | Inr (lineBreak, ts2) \<Rightarrow> Inr (s, ts2))
          else Inr (s, ts1))"

text \<open>
  \<^verbatim>\<open>parse\<close>. The error reporter is outside the sources at hand: the model records each
  call of \<^verbatim>\<open>reporter.error\<close> as the source of the error (the token, or the expression
  whose bounds \<^verbatim>\<open>expressionBounds\<close> computes) and the message. After a report the loop
  calls \<^verbatim>\<open>synchronize\<close> and leaves; the cursor is not read again, so \<^verbatim>\<open>synchronize\<close> is
  not modelled. A value that is not a \<^verbatim>\<open>ParseError\<close> is thrown again: \<^verbatim>\<open>parse\<close> then
  returns nothing and has reported nothing.
\<close>

type_synonym report = "source \<times> string"

fun parse_loop ::
  "nat \<Rightarrow> operators \<Rightarrow> token list \<Rightarrow> stmt list \<Rightarrow> (failure + stmt list) \<times> report list"
where
  "parse_loop 0 ops ts statements = (Inl OutOfFuel, [])"
| "parse_loop (Suc n) ops ts statements =
     (if isAtEnd ts then (Inr statements, [])
      else if check LineBreak ts then parse_loop n ops (advance ts) statements
      else
        (case statement n ops ts of
           Inr (s, ts1) \<Rightarrow> parse_loop n ops ts1 (statements @ [s])
         | Inl (ParseError src message) \<Rightarrow> (Inr statements, [(src, message)])
         | Inl e \<Rightarrow> (Inl e, [])))"

definition parse :: "nat \<Rightarrow> operators \<Rightarrow> token list \<Rightarrow> (failure + stmt list) \<times> report list" where
  "parse n ops tokens = parse_loop n ops tokens []"

subsection \<open>Operands of one token\<close>

text \<open>
  The tokens that \<^verbatim>\<open>functionTerm\<close> turns into an expression by themselves, and the
  expression each of them becomes: a variable for an identifier, a literal for a number or
  a string.
\<close>

definition is_operand :: "token \<Rightarrow> bool" where
  "is_operand t = (ttype t = Identifier \<or> ttype t = Number \<or> ttype t = String)"

fun operand :: "token \<Rightarrow> expr" where
  "operand t = (if ttype t = Identifier then Variable t else Literal (literal t) t)"

subsection \<open>Kinds of failure\<close>





section \<open>The interpreter\<close>

text \<open>
  Modelled from the spec: the values of the host. \<^verbatim>\<open>Bindings\<close> (\<^verbatim>\<open>parse/API.ts\<close>) and the
  pattern library are not part of the sources at hand. A callable of the host (a built-in
  operator or function, or the result of \<^verbatim>\<open>new Function\<close>) is known by its identity
  \<open>fn\<close>; what it does when called is a parameter of the interpreter (\<open>call_fn\<close> below).
  A host value is a scalar, \<^verbatim>\<open>undefined\<close>, a callable, an object with a \<^verbatim>\<open>runIO\<close> method,
  a \<^verbatim>\<open>Pattern\<close>, or any other object.
\<close>

datatype fn = Fn nat

datatype hval = HPrim primitive | HUndefined | HFunc fn | HRunnable nat | HPattern nat | HObject nat

text \<open>
  \<^verbatim>\<open>Value\<close>: what \<^verbatim>\<open>evaluate\<close> returns. Besides the values of the host these are the
  arrays that \<^verbatim>\<open>evaluate\<close> builds for list literals and the arrow functions it builds for
  sections. The arrow function of a section is kept as the section it was made from; its
  body is \<open>call_section\<close> below.
\<close>

datatype val = Host hval | Array "val list" | Closure token expr side

text \<open>
  What the interpreter can throw: a \<^verbatim>\<open>RuntimeError\<close> with its token, a \<^verbatim>\<open>TypeError\<close> of the
  language (calling what is not a function, reading \<^verbatim>\<open>.value\<close> of an absent binding),
  a generic \<^verbatim>\<open>Error\<close>, or whatever the code of the host throws.
\<close>

datatype thrown = RuntimeError token string | TypeError | Error string | HostError string

text \<open>
  The receiver of a call, the \<^verbatim>\<open>this\<close> of the callable. The call \<^verbatim>\<open>f(...args)\<close> of a value
  has none. The call \<^verbatim>\<open>this.bindings[name].value(...args)\<close> is the call of a method of the
  object \<^verbatim>\<open>this.bindings[name]\<close>, and that object is the receiver: an entry of the
  bindings, known by its value as everywhere in the model, or the property that the
  bindings object inherits under the name.
\<close>

datatype receiver = Entry hval | Inherited string

text \<open>
  What the interpreter does to its surroundings, in the order in which it does it: it
  reads the entry of a name in the bindings, it calls a callable of the host with
  arguments and no receiver, it calls one as a method of a receiver, it calls \<^verbatim>\<open>runIO\<close>
  of a result.
\<close>

datatype event =
  Lookup string | Invoke fn "val list" | InvokeMethod receiver fn "val list" | RunIO nat

text \<open>
  The host: \<^verbatim>\<open>new Function(...argNames, body)\<close>, the call of a callable without a receiver
  and as a method of a receiver, the prototype of the bindings object, \<^verbatim>\<open>runIO()\<close> of an
  object, \<^verbatim>\<open>toString()\<close> and the rendering of a pattern. A callable of the host is a
  function of its receiver and its arguments. The bindings are an object of the host:
  besides its own entries it has the properties that it inherits from its prototype, and
  \<open>inherited\<close> gives, for each name that it inherits, what reading \<^verbatim>\<open>.value\<close> of the
  inherited property gives (a value, or what the read throws).
\<close>

record host =
  new_function :: "string list \<Rightarrow> string \<Rightarrow> thrown + fn"
  call_fn :: "fn \<Rightarrow> val list \<Rightarrow> thrown + hval"
  call_method :: "receiver \<Rightarrow> fn \<Rightarrow> val list \<Rightarrow> thrown + hval"
  inherited :: "string \<rightharpoonup> thrown + hval"
  run_io :: "nat \<Rightarrow> thrown option"
  to_string :: "val \<Rightarrow> string"
  pattern_show :: "nat \<Rightarrow> string"

text \<open>
  The binding environment: the own entries of the bindings object. An entry is
  \<^verbatim>\<open>{type: "", value}\<close>; the interpreter reads and writes the value only, so the model
  keeps the value.
\<close>

type_synonym bindings = "string \<rightharpoonup> hval"

text \<open>
  A computation of the interpreter gives the events it caused and either the value thrown
  or the result. \<open>andThen\<close> is the sequence of two statements: the second runs only when
  the first has not thrown, and its events come after those of the first.
\<close>

type_synonym 'a eff = "event list \<times> (thrown + 'a)"

definition andThen :: "'a eff \<Rightarrow> ('a \<Rightarrow> 'b eff) \<Rightarrow> 'b eff" where
  "andThen m k =
     (case m of
        (es, Inl x) \<Rightarrow> (es, Inl x)
      | (es, Inr a) \<Rightarrow> (case k a of (es', r) \<Rightarrow> (es @ es', r)))"

definition return :: "'a \<Rightarrow> 'a eff" where
  "return a = ([], Inr a)"

definition throw :: "thrown \<Rightarrow> 'a eff" where
  "throw x = ([], Inl x)"

definition emit :: "event \<Rightarrow> unit eff" where
  "emit e = ([e], Inr ())"

text \<open>The call \<^verbatim>\<open>g(...args)\<close> of a callable of the host.\<close>

definition invoke :: "host \<Rightarrow> fn \<Rightarrow> val list \<Rightarrow> hval eff" where
  "invoke h g args =
     andThen (emit (Invoke g args))
       (\<lambda>_. case call_fn h g args of Inl x \<Rightarrow> throw x | Inr v \<Rightarrow> return v)"

text \<open>The call \<^verbatim>\<open>f(...args)\<close> of a value of the host, which may not be a function.\<close>

definition call_host :: "host \<Rightarrow> hval \<Rightarrow> val list \<Rightarrow> val eff" where
  "call_host h f args =
     (case f of
        HFunc g \<Rightarrow> andThen (invoke h g args) (\<lambda>v. return (Host v))
      | _ \<Rightarrow> throw TypeError)"

text \<open>
  The call \<^verbatim>\<open>recv.value(...args)\<close> of the value \<open>f\<close> of an entry as a method of the entry.
\<close>

definition invoke_method :: "host \<Rightarrow> receiver \<Rightarrow> fn \<Rightarrow> val list \<Rightarrow> hval eff" where
  "invoke_method h recv g args =
     andThen (emit (InvokeMethod recv g args))
       (\<lambda>_. case call_method h recv g args of Inl x \<Rightarrow> throw x | Inr v \<Rightarrow> return v)"

definition call_entry :: "host \<Rightarrow> receiver \<Rightarrow> hval \<Rightarrow> val list \<Rightarrow> val eff" where
  "call_entry h recv f args =
     (case f of
        HFunc g \<Rightarrow> andThen (invoke_method h recv g args) (\<lambda>v. return (Host v))
      | _ \<Rightarrow> throw TypeError)"

text \<open>
  The bindings object under a name. \<open>entry_value\<close> is \<open>None\<close> when
  \<^verbatim>\<open>name in this.bindings\<close> is false, and otherwise what reading
  \<^verbatim>\<open>this.bindings[name].value\<close> gives: the operator \<^verbatim>\<open>in\<close> and the index are true to the own
  entries and to the inherited properties alike, an own entry before an inherited
  property. \<open>entry_receiver\<close> is the object \<^verbatim>\<open>this.bindings[name]\<close> for such a name.
\<close>

definition entry_value :: "host \<Rightarrow> bindings \<Rightarrow> string \<Rightarrow> (thrown + hval) option" where
  "entry_value h b name = (case b name of Some v \<Rightarrow> Some (Inr v) | None \<Rightarrow> inherited h name)"

definition entry_receiver :: "bindings \<Rightarrow> string \<Rightarrow> receiver" where
  "entry_receiver b name = (case b name of Some v \<Rightarrow> Entry v | None \<Rightarrow> Inherited name)"

definition undefined_variable :: "string \<Rightarrow> string" where
  "undefined_variable l = ''Variable '' @ [CHR 0x22] @ l @ [CHR 0x22] @ '' is undefined''"

text \<open>The case \<^verbatim>\<open>Expr.Type.Variable\<close> of \<^verbatim>\<open>evaluate\<close>, before the value joins \<open>val\<close>.\<close>

definition variable_value :: "host \<Rightarrow> bindings \<Rightarrow> token \<Rightarrow> hval eff" where
  "variable_value h b name =
     andThen (emit (Lookup (lexeme name)))
       (\<lambda>_. case entry_value h b (lexeme name) of
          Some (Inr v) \<Rightarrow> return v
        | Some (Inl x) \<Rightarrow> throw x
        | None \<Rightarrow> throw (RuntimeError name (undefined_variable (lexeme name))))"

text \<open>
  \<^verbatim>\<open>evaluate\<close> and \<^verbatim>\<open>curry\<close>. The case \<^verbatim>\<open>Binary\<close> calls the value of the operator as a
  method of its entry; the arrow function of a section first puts the value into the
  constant \<^verbatim>\<open>opFunc\<close> and calls that, without a receiver, as \<^verbatim>\<open>left(right)\<close> in the case
  \<^verbatim>\<open>Application\<close> and \<^verbatim>\<open>func()\<close> in \<^verbatim>\<open>execute\<close> do. \<open>evaluate_items\<close> is \<^verbatim>\<open>expr.items.map((e) => this.evaluate(e))\<close>.
  \<open>call_section\<close> is the body of the arrow function that \<^verbatim>\<open>evaluate\<close> returns for a
  section, applied to the arguments of a call; the arrow function has one parameter, so
  it reads the first argument, or \<^verbatim>\<open>undefined\<close> when there is none. \<^verbatim>\<open>curry\<close> returns a
  function: for a variable or a section what \<^verbatim>\<open>evaluate\<close> returns, for an application an
  arrow function with a rest parameter. The \<^verbatim>\<open>switch\<close> of \<^verbatim>\<open>evaluate\<close> has no case for
  \<^verbatim>\<open>Empty\<close>, so the method returns \<^verbatim>\<open>undefined\<close> there.
\<close>

fun evaluate :: "host \<Rightarrow> bindings \<Rightarrow> expr \<Rightarrow> val eff"
  and evaluate_items :: "host \<Rightarrow> bindings \<Rightarrow> expr list \<Rightarrow> val list eff"
  and call_section :: "host \<Rightarrow> bindings \<Rightarrow> token \<Rightarrow> expr \<Rightarrow> side \<Rightarrow> val list \<Rightarrow> val eff"
  and curry :: "host \<Rightarrow> bindings \<Rightarrow> expr \<Rightarrow> (val list \<Rightarrow> val eff) eff"
where
  "evaluate h b (Literal v t) = return (Host (HPrim v))"
| "evaluate h b (List items) = andThen (evaluate_items h b items) (\<lambda>vs. return (Array vs))"
| "evaluate h b (Grouping l e r) = evaluate h b e"
| "evaluate h b (Binary l operator r p) =
     andThen (evaluate h b l) (\<lambda>left.
     andThen (evaluate h b r) (\<lambda>right.
     andThen (emit (Lookup (lexeme operator))) (\<lambda>_.
       case entry_value h b (lexeme operator) of
         Some (Inr f) \<Rightarrow> call_entry h (entry_receiver b (lexeme operator)) f [left, right]
       | Some (Inl x) \<Rightarrow> throw x
       | None \<Rightarrow> throw (RuntimeError operator ''Operator isn't implemented''))))"
| "evaluate h b (Section operator e s) = return (Closure operator e s)"
| "evaluate h b (Variable name) = andThen (variable_value h b name) (\<lambda>v. return (Host v))"
| "evaluate h b (Application l r) =
     andThen (curry h b l) (\<lambda>left.
     andThen (evaluate h b r) (\<lambda>right. left [right]))"
| "evaluate h b Empty = return (Host HUndefined)"
| "evaluate_items h b [] = return []"
| "evaluate_items h b (e # es) =
     andThen (evaluate h b e) (\<lambda>v.
     andThen (evaluate_items h b es) (\<lambda>vs. return (v # vs)))"
| "call_section h b operator e s args =
     (let input = (case args of [] \<Rightarrow> Host HUndefined | a # _ \<Rightarrow> a) in
      andThen (emit (Lookup (lexeme operator))) (\<lambda>_.
        case entry_value h b (lexeme operator) of
          None \<Rightarrow> throw TypeError
        | Some (Inl x) \<Rightarrow> throw x
        | Some (Inr opFunc) \<Rightarrow>
            andThen (evaluate h b e) (\<lambda>operand.
              if s = LeftSide then call_host h opFunc [input, operand]
              else call_host h opFunc [operand, input])))"
| "curry h b (Variable name) = andThen (variable_value h b name) (\<lambda>f. return (call_host h f))"
| "curry h b (Section operator e s) = return (\<lambda>args. call_section h b operator e s args)"
| "curry h b (Grouping l e r) = curry h b e"
| "curry h b (Application l r) =
     andThen (evaluate h b r) (\<lambda>arg.
       return (\<lambda>args. andThen (curry h b l) (\<lambda>f. f (arg # args))))"
| "curry h b e = throw (Error ''Unexpected function'')"

text \<open>The call \<^verbatim>\<open>f(...args)\<close> of any value.\<close>

definition call :: "host \<Rightarrow> bindings \<Rightarrow> val \<Rightarrow> val list \<Rightarrow> val eff" where
  "call h b f args =
     (case f of
        Closure operator e s \<Rightarrow> call_section h b operator e s args
      | Host v \<Rightarrow> call_host h v args
      | Array vs \<Rightarrow> throw TypeError)"

text \<open>
  \<^verbatim>\<open>execute\<close> returns the bindings after the statement and the value of the statement
  (\<^verbatim>\<open>undefined\<close> for a binding).
\<close>

definition execute :: "host \<Rightarrow> bindings \<Rightarrow> stmt \<Rightarrow> (bindings \<times> val) eff" where
  "execute h b stmt =
     (case stmt of
        Expression e \<Rightarrow> andThen (evaluate h b e) (\<lambda>v. return (b, v))
      | Binding name args initializer \<Rightarrow>
          (let argNames = map lexeme args in
           case literal initializer of
             PString code \<Rightarrow>
               (case new_function h argNames code of
                  Inl x \<Rightarrow> throw x
                | Inr func \<Rightarrow>
                    andThen (if args \<noteq> [] then return (HFunc func)
                             else invoke h func [])
                      (\<lambda>v. return (b(lexeme name \<mapsto> v), Host HUndefined)))
           | _ \<Rightarrow> throw (Error ''Initializer doesn't contain a source code string'')))"

definition stringify :: "host \<Rightarrow> val \<Rightarrow> string" where
  "stringify h object =
     (case object of
        Host (HPattern p) \<Rightarrow> pattern_show h p
      | Host (HPrim PNull) \<Rightarrow> ''null''
      | Host HUndefined \<Rightarrow> ''null''
      | _ \<Rightarrow> to_string h object)"

text \<open>
  \<^verbatim>\<open>interpret\<close> (the name alone is a keyword of the prover). \<open>interpret_loop\<close> is the
  \<^verbatim>\<open>for\<close> loop inside the \<^verbatim>\<open>try\<close>: it stops at the first statement that throws and gives
  the value thrown, the bindings and the results collected up to there.
  \<open>interpret_batch\<close> is the whole method: a \<^verbatim>\<open>RuntimeError\<close> is reported with the span of
  its token and the results are returned; another value is thrown again.
\<close>

record progress =
  env :: bindings
  results :: "string list"

fun interpret_loop :: "host \<Rightarrow> stmt list \<Rightarrow> progress \<Rightarrow> event list \<times> thrown option \<times> progress" where
  "interpret_loop h [] st = ([], None, st)"
| "interpret_loop h (s # rest) st =
     (case execute h (env st) s of
        (es, Inl x) \<Rightarrow> (es, Some x, st)
      | (es, Inr (b, result)) \<Rightarrow>
          (case result of
             Host (HRunnable io) \<Rightarrow>
               (case run_io h io of
                  Some x \<Rightarrow> (es @ [RunIO io], Some x, st\<lparr>env := b\<rparr>)
                | None \<Rightarrow>
                    (case interpret_loop h rest (st\<lparr>env := b\<rparr>) of
                       (es', r) \<Rightarrow> (es @ RunIO io # es', r)))
           | Host HUndefined \<Rightarrow>
               (case interpret_loop h rest (st\<lparr>env := b\<rparr>) of (es', r) \<Rightarrow> (es @ es', r))
           | _ \<Rightarrow>
               (case interpret_loop h rest
                       (st\<lparr>env := b, results := results st @ [stringify h result]\<rparr>) of
                  (es', r) \<Rightarrow> (es @ es', r))))"

record outcome =
  returned :: "thrown + string list"
  reported :: "(nat \<times> nat \<times> string) list"
  final_env :: bindings
  trace :: "event list"

definition interpret_batch :: "host \<Rightarrow> bindings \<Rightarrow> stmt list \<Rightarrow> outcome" where
  "interpret_batch h b statements =
     (case interpret_loop h statements \<lparr>env = b, results = []\<rparr> of
        (es, None, st) \<Rightarrow>
          \<lparr>returned = Inr (results st), reported = [], final_env = env st, trace = es\<rparr>
      | (es, Some (RuntimeError token message), st) \<Rightarrow>
          \<lparr>returned = Inr (results st),
           reported = [(from_pos token, to_pos token, message)],
           final_env = env st, trace = es\<rparr>
      | (es, Some x, st) \<Rightarrow>
          \<lparr>returned = Inl x, reported = [], final_env = env st, trace = es\<rparr>)"

subsection \<open>Application spines\<close>

text \<open>
  An application spine is an expression seen the way \<^verbatim>\<open>curry\<close> walks it: down the left
  operand of each \<^verbatim>\<open>Application\<close> and through each \<^verbatim>\<open>Grouping\<close>. \<open>spine_base\<close> is the
  expression at the bottom, \<open>spine_operands\<close> are the right operands on the way, the
  leftmost first. \<open>callee\<close> holds of the bases that \<^verbatim>\<open>curry\<close> accepts.
\<close>

fun spine_base :: "expr \<Rightarrow> expr" where
  "spine_base (Application l r) = spine_base l"
| "spine_base (Grouping lp e rp) = spine_base e"
| "spine_base e = e"

fun spine_operands :: "expr \<Rightarrow> expr list" where
  "spine_operands (Application l r) = spine_operands l @ [r]"
| "spine_operands (Grouping lp e rp) = spine_operands e"
| "spine_operands e = []"

fun callee :: "expr \<Rightarrow> bool" where
  "callee (Variable name) = True"
| "callee (Section operator e s) = True"
| "callee e = False"

text \<open>
  The rest of a call that has its last arguments: evaluate the operands that remain, each
  one put in front of the arguments, the rightmost of them first; then evaluate the base
  and call its value with all the arguments at once.
\<close>

fun unwind :: "host \<Rightarrow> bindings \<Rightarrow> expr \<Rightarrow> expr list \<Rightarrow> val list \<Rightarrow> val eff" where
  "unwind h b base [] args = andThen (evaluate h b base) (\<lambda>f. call h b f args)"
| "unwind h b base (a # as) args =
     andThen (evaluate h b a) (\<lambda>v. unwind h b base as (v # args))"

subsection \<open>A host and bindings for the examples\<close>

text \<open>
  Modelled from the language: the bindings as an ordinary object, whose prototype is
  \<^verbatim>\<open>Object.prototype\<close>. These are the names that it inherits. The inherited property is a
  function or an object, and none of them has a property \<^verbatim>\<open>value\<close>: reading \<^verbatim>\<open>.value\<close> gives
  \<^verbatim>\<open>undefined\<close>.
\<close>

definition object_prototype :: "string \<rightharpoonup> thrown + hval" where
  "object_prototype name =
     (if name \<in> set [''constructor'', ''hasOwnProperty'', ''isPrototypeOf'',
                       ''propertyIsEnumerable'', ''toLocaleString'', ''toString'', ''valueOf'',
                       ''__proto__'', ''__defineGetter__'', ''__defineSetter__'',
                       ''__lookupGetter__'', ''__lookupSetter__'']
      then Some (Inr HUndefined) else None)"

text \<open>
  A host whose callables all subtract, whatever the receiver: called with two numbers a
  callable returns their difference, and otherwise \<^verbatim>\<open>undefined\<close>. Its bindings are an
  ordinary object. The bindings have a function \<^verbatim>\<open>f\<close>, the
  operator \<^verbatim>\<open>-\<close> and the numbers 1, 2 and 3 under \<^verbatim>\<open>x\<close>, \<^verbatim>\<open>y\<close> and \<^verbatim>\<open>z\<close>. \<open>ident\<close>
  makes the token of an identifier. The callables of \<open>receiver_host\<close> read \<^verbatim>\<open>this\<close>
  instead, as the callable that \<^verbatim>\<open>new Function\<close> makes of the body
  \<^verbatim>\<open>return this.value ? 1 : 0\<close> does. Called as a method of a receiver, \<^verbatim>\<open>this.value\<close> is
  the callable itself and the result is 1; called without a receiver, \<^verbatim>\<open>this\<close> is the
  global object, which has no property \<^verbatim>\<open>value\<close>, and the result is 0.
\<close>

definition example_host :: host where
  "example_host =
     \<lparr>new_function = (\<lambda>argNames code. Inr (Fn (100 + length argNames))),
      call_fn = (\<lambda>g args. case args of
                   [Host (HPrim (PNumber m)), Host (HPrim (PNumber n))] \<Rightarrow>
                     Inr (HPrim (PNumber (m - n)))
                 | _ \<Rightarrow> Inr HUndefined),
      call_method = (\<lambda>recv g args. case args of
                   [Host (HPrim (PNumber m)), Host (HPrim (PNumber n))] \<Rightarrow>
                     Inr (HPrim (PNumber (m - n)))
                 | _ \<Rightarrow> Inr HUndefined),
      inherited = object_prototype,
      run_io = (\<lambda>io. None),
      to_string = (\<lambda>v. case v of
                     Host (HPrim (PNumber n)) \<Rightarrow>
                       (if n = 1 then ''1'' else if n = 2 then ''2'' else ''number'')
                   | _ \<Rightarrow> ''object''),
      pattern_show = (\<lambda>p. ''pattern'')\<rparr>"

definition receiver_host :: host where
  "receiver_host =
     example_host
       \<lparr>call_fn := (\<lambda>g args. Inr (HPrim (PNumber 0))),
        call_method := (\<lambda>recv g args. Inr (HPrim (PNumber 1)))\<rparr>"

definition example_bindings :: bindings where
  "example_bindings =
     [''f'' \<mapsto> HFunc (Fn 0), ''-'' \<mapsto> HFunc (Fn 1),
      ''x'' \<mapsto> HPrim (PNumber 1), ''y'' \<mapsto> HPrim (PNumber 2), ''z'' \<mapsto> HPrim (PNumber 3)]"

definition ident :: "string \<Rightarrow> token" where
  "ident l = Token Identifier l PNull 0 (length l)"

section \<open>Properties of the parser\<close>

subsection \<open>The cursor on a stream that starts with a known token\<close>

lemma peek_Cons: "peek (t # ts) = t"
  by (simp add: peek_def)

lemma peek_Nil: "ttype (peek []) = EOF"
  by (simp add: peek_def)

lemma peekNext_Cons: "peekNext (t # ts) = peek ts"
  by (simp add: peekNext_def)

lemma isAtEnd_Cons: "isAtEnd (t # ts) = (ttype t = EOF)"
  by (simp add: isAtEnd_def peek_def)

lemma advance_Cons: "ttype t \<noteq> EOF \<Longrightarrow> advance (t # ts) = ts"
  by (simp add: advance_def isAtEnd_def peek_def)

lemma check_Cons: "check ty (t # ts) = (ttype t \<noteq> EOF \<and> ttype t = ty)"
  by (simp add: check_def isAtEnd_def peek_def)

lemmas cursor_simps = peek_Cons peekNext_Cons isAtEnd_Cons advance_Cons check_Cons

lemmas statement_simps =
  parse_def statement_def declaration_stmt_def consume_def peekFunctionTerm_def Let_def

lemma fuel_9: "9 \<le> n \<Longrightarrow> \<exists>m. n = Suc (Suc (Suc (Suc (Suc (Suc (Suc (Suc (Suc m))))))))"
  by (rule exI [of _ "n - 9"]) simp

subsection \<open>Sums of precedences\<close>

declare excess_bits.simps [simp del]

lemma excess_bits_small: "n < 9007199254740992 \<Longrightarrow> excess_bits n = 0"
  by (subst excess_bits.simps) simp

lemma excess_bits_limit: "excess_bits 9007199254740992 = 1"
  by (subst excess_bits.simps) (simp add: excess_bits_small)

lemma excess_bits_above: "excess_bits 9007199254740993 = 1"
  by (subst excess_bits.simps) (simp add: excess_bits_small)

lemma round_to_double_small:
  assumes "\<bar>i\<bar> < 9007199254740992"
  shows "round_to_double i = i"
proof -
  from assms have "nat \<bar>i\<bar> < 9007199254740992" by simp
  then have "excess_bits (nat \<bar>i\<bar>) = 0" by (rule excess_bits_small)
  then have "round_to_double i = sgn i * \<bar>i\<bar>"
    by (simp add: round_to_double_def Let_def)
  then show ?thesis by (simp add: mult_sgn_abs)
qed

lemma round_to_double_limit: "round_to_double 9007199254740992 = 9007199254740992"
  by (simp add: round_to_double_def Let_def excess_bits_limit)

text \<open>The sum is exact for a precedence from 0 to \<open>2\<^sup>5\<^sup>3 - 1\<close>, and not at \<open>2\<^sup>5\<^sup>3\<close>.\<close>

lemma number_add_exact:
  assumes "0 \<le> p" "p < 9007199254740992"
  shows "number_add p 1 = p + 1"
proof (cases "p + 1 < 9007199254740992")
  case True
  with assms have "\<bar>p + 1\<bar> < 9007199254740992" by simp
  then show ?thesis by (simp only: number_add_def round_to_double_small)
next
  case False
  with assms have "p + 1 = 9007199254740992" by simp
  then show ?thesis by (simp only: number_add_def round_to_double_limit)
qed

lemma number_add_rounds: "number_add 9007199254740992 1 = 9007199254740992"
  by (simp add: number_add_def round_to_double_def Let_def excess_bits_above)

subsection \<open>Precedence and associativity\<close>

text \<open>
  C1, as the code has it. The line \<^verbatim>\<open>a op1 b op2 c\<close>, three operands of one token
  (identifiers, numbers or strings) and two operators of the table with precedences that
  are not negative, the one of \<^verbatim>\<open>op1\<close> below \<open>2\<^sup>5\<^sup>3\<close> = 9007199254740992, parses (with a
  depth bound of 9 or more) as one expression statement and nothing is reported. The
  nesting follows the table: \<^verbatim>\<open>a op1 (b op2 c)\<close> when \<^verbatim>\<open>op2\<close> has the strictly higher
  precedence, or the same precedence and \<^verbatim>\<open>op1\<close> is right-associative;
  \<^verbatim>\<open>(a op1 b) op2 c\<close> otherwise, so also for equal precedence and a left-associative
  \<^verbatim>\<open>op1\<close>. Each \<^verbatim>\<open>Binary\<close> node caches the precedence of its operator. When the operator
  \<^verbatim>\<open>op\<close> after the first operand of a statement has a negative precedence, whatever tokens
  \<open>rest\<close> follow it, it is not consumed: no statement is returned and the error of a
  missing line break is reported at \<^verbatim>\<open>op\<close>.
\<close>

theorem precedence_and_associativity:
  assumes "is_operand a" and "9 \<le> n"
  shows "(is_operand b \<and> is_operand c
        \<and> ttype op1 = Operator \<and> ttype op2 = Operator \<and> ttype eof = EOF
        \<and> ops (lexeme op1) = Some (p1, a1) \<and> ops (lexeme op2) = Some (p2, a2)
        \<and> 0 \<le> p1 \<and> p1 < 9007199254740992 \<and> 0 \<le> p2 \<longrightarrow>
      parse n ops [a, op1, b, op2, c, eof] =
        (Inr [Expression
           (if p1 < p2 \<or> (p1 = p2 \<and> a1 = RightAssoc)
            then Binary (operand a) op1 (Binary (operand b) op2 (operand c) p2) p1
            else Binary (Binary (operand a) op1 (operand b) p1) op2 (operand c) p2)], []))
     \<and> (ttype op = Operator \<and> ops (lexeme op) = Some (p, asc) \<and> p < 0 \<longrightarrow>
      parse n ops (a # op # rest) =
        (Inr [], [(TokenSource op, ''Expect new line after expression.'')]))"
proof (intro conjI impI)
  from \<open>9 \<le> n\<close> obtain m
    where n: "n = Suc (Suc (Suc (Suc (Suc (Suc (Suc (Suc (Suc m))))))))"
    using fuel_9 by blast
  note defs = statement_simps cursor_simps number_add_exact
  {
    assume h: "is_operand b \<and> is_operand c
        \<and> ttype op1 = Operator \<and> ttype op2 = Operator \<and> ttype eof = EOF
        \<and> ops (lexeme op1) = Some (p1, a1) \<and> ops (lexeme op2) = Some (p2, a2)
        \<and> 0 \<le> p1 \<and> p1 < 9007199254740992 \<and> 0 \<le> p2"
    show "parse n ops [a, op1, b, op2, c, eof] =
        (Inr [Expression
           (if p1 < p2 \<or> (p1 = p2 \<and> a1 = RightAssoc)
            then Binary (operand a) op1 (Binary (operand b) op2 (operand c) p2) p1
            else Binary (Binary (operand a) op1 (operand b) p1) op2 (operand c) p2)], [])"
    proof (cases a1)
      case LeftAssoc
      with assms(1) h show ?thesis
        unfolding n is_operand_def
        by (elim conjE disjE) (simp_all add: defs)
    next
      case RightAssoc
      with assms(1) h show ?thesis
        unfolding n is_operand_def
        by (elim conjE disjE) (simp_all add: defs)
    qed
  }
  {
    assume "ttype op = Operator \<and> ops (lexeme op) = Some (p, asc) \<and> p < 0"
    with assms(1) show "parse n ops (a # op # rest) =
        (Inr [], [(TokenSource op, ''Expect new line after expression.'')])"
      unfolding n is_operand_def
      by (elim conjE disjE) (simp_all add: defs)
  }
qed

text \<open>
  The theorem at \<^verbatim>\<open>a + 3 * c\<close> with \<^verbatim>\<open>+\<close> at 6 and \<^verbatim>\<open>*\<close> at 7, both left-associative,
  and at \<^verbatim>\<open>a - b - c\<close> with \<^verbatim>\<open>-\<close> left-associative and with \<^verbatim>\<open>-\<close> right-associative;
  each table has \<^verbatim>\<open>!\<close> at -1, and the line \<^verbatim>\<open>a ! b\<close> is refused.
\<close>

theorem precedence_and_associativity_witness:
  "parse 9 [''+'' \<mapsto> (6, LeftAssoc), ''*'' \<mapsto> (7, LeftAssoc), ''!'' \<mapsto> (- 1, LeftAssoc)]
     [Token Identifier ''a'' PNull 0 1, Token Operator ''+'' PNull 2 3,
      Token Number ''3'' (PNumber 3) 4 5, Token Operator ''*'' PNull 6 7,
      Token Identifier ''c'' PNull 8 9, Token EOF [] PNull 9 9] =
   (Inr [Expression
      (Binary (Variable (Token Identifier ''a'' PNull 0 1)) (Token Operator ''+'' PNull 2 3)
         (Binary (Literal (PNumber 3) (Token Number ''3'' (PNumber 3) 4 5))
            (Token Operator ''*'' PNull 6 7)
            (Variable (Token Identifier ''c'' PNull 8 9)) 7) 6)], [])
   \<and> parse 9 [''-'' \<mapsto> (6, LeftAssoc), ''!'' \<mapsto> (- 1, LeftAssoc)]
     [Token Identifier ''a'' PNull 0 1, Token Operator ''-'' PNull 2 3,
      Token Identifier ''b'' PNull 4 5, Token Operator ''-'' PNull 6 7,
      Token Identifier ''c'' PNull 8 9, Token EOF [] PNull 9 9] =
   (Inr [Expression
      (Binary
         (Binary (Variable (Token Identifier ''a'' PNull 0 1)) (Token Operator ''-'' PNull 2 3)
            (Variable (Token Identifier ''b'' PNull 4 5)) 6)
         (Token Operator ''-'' PNull 6 7)
         (Variable (Token Identifier ''c'' PNull 8 9)) 6)], [])
   \<and> parse 9 [''-'' \<mapsto> (6, RightAssoc), ''!'' \<mapsto> (- 1, LeftAssoc)]
     [Token Identifier ''a'' PNull 0 1, Token Operator ''-'' PNull 2 3,
      Token Identifier ''b'' PNull 4 5, Token Operator ''-'' PNull 6 7,
      Token Identifier ''c'' PNull 8 9, Token EOF [] PNull 9 9] =
   (Inr [Expression
      (Binary (Variable (Token Identifier ''a'' PNull 0 1)) (Token Operator ''-'' PNull 2 3)
         (Binary (Variable (Token Identifier ''b'' PNull 4 5)) (Token Operator ''-'' PNull 6 7)
            (Variable (Token Identifier ''c'' PNull 8 9)) 6) 6)], [])
   \<and> parse 9 [''+'' \<mapsto> (6, LeftAssoc), ''*'' \<mapsto> (7, LeftAssoc), ''!'' \<mapsto> (- 1, LeftAssoc)]
     [Token Identifier ''a'' PNull 0 1, Token Operator ''!'' PNull 2 3,
      Token Identifier ''b'' PNull 4 5, Token EOF [] PNull 5 5] =
   (Inr [], [(TokenSource (Token Operator ''!'' PNull 2 3),
              ''Expect new line after expression.'')])"
  using
    precedence_and_associativity
    [where a = "Token Identifier ''a'' PNull 0 1" and b = "Token Number ''3'' (PNumber 3) 4 5"
       and c = "Token Identifier ''c'' PNull 8 9" and ?op1.0 = "Token Operator ''+'' PNull 2 3"
       and ?op2.0 = "Token Operator ''*'' PNull 6 7" and eof = "Token EOF [] PNull 9 9"
       and ops = "[''+'' \<mapsto> (6, LeftAssoc), ''*'' \<mapsto> (7, LeftAssoc), ''!'' \<mapsto> (- 1, LeftAssoc)]"
       and ?p1.0 = 6 and ?a1.0 = LeftAssoc and ?p2.0 = 7 and ?a2.0 = LeftAssoc and n = 9
       and op = "Token Operator ''!'' PNull 2 3" and p = "- 1" and asc = LeftAssoc
       and rest = "[Token Identifier ''b'' PNull 4 5, Token EOF [] PNull 5 5]"]
    precedence_and_associativity
    [where a = "Token Identifier ''a'' PNull 0 1" and b = "Token Identifier ''b'' PNull 4 5"
       and c = "Token Identifier ''c'' PNull 8 9" and ?op1.0 = "Token Operator ''-'' PNull 2 3"
       and ?op2.0 = "Token Operator ''-'' PNull 6 7" and eof = "Token EOF [] PNull 9 9"
       and ops = "[''-'' \<mapsto> (6, LeftAssoc), ''!'' \<mapsto> (- 1, LeftAssoc)]"
       and ?p1.0 = 6 and ?a1.0 = LeftAssoc and ?p2.0 = 6 and ?a2.0 = LeftAssoc and n = 9
       and op = "Token Operator ''!'' PNull 2 3" and p = "- 1" and asc = LeftAssoc
       and rest = "[]"]
    precedence_and_associativity
    [where a = "Token Identifier ''a'' PNull 0 1" and b = "Token Identifier ''b'' PNull 4 5"
       and c = "Token Identifier ''c'' PNull 8 9" and ?op1.0 = "Token Operator ''-'' PNull 2 3"
       and ?op2.0 = "Token Operator ''-'' PNull 6 7" and eof = "Token EOF [] PNull 9 9"
       and ops = "[''-'' \<mapsto> (6, RightAssoc), ''!'' \<mapsto> (- 1, LeftAssoc)]"
       and ?p1.0 = 6 and ?a1.0 = RightAssoc and ?p2.0 = 6 and ?a2.0 = RightAssoc and n = 9
       and op = "Token Operator ''!'' PNull 2 3" and p = "- 1" and asc = LeftAssoc
       and rest = "[]"]
  by (simp add: is_operand_def)

text \<open>
  C1 as stated, for every table, fails: with \<^verbatim>\<open>+\<close> at precedence -1 and \<^verbatim>\<open>*\<close> at 0 the
  statement is parsed with minimum precedence 0, the loop of \<^verbatim>\<open>expression\<close> leaves at
  \<^verbatim>\<open>+\<close>, and \<^verbatim>\<open>statement\<close> raises the error of a missing line break: no statement is
  returned.
\<close>

theorem negative_precedence_counterexample:
  "parse 20 [''+'' \<mapsto> (- 1, LeftAssoc), ''*'' \<mapsto> (0, LeftAssoc)]
     [Token Identifier ''a'' PNull 0 1, Token Operator ''+'' PNull 2 3,
      Token Identifier ''b'' PNull 4 5, Token Operator ''*'' PNull 6 7,
      Token Identifier ''c'' PNull 8 9, Token EOF [] PNull 9 9] =
   (Inr [], [(TokenSource (Token Operator ''+'' PNull 2 3),
              ''Expect new line after expression.'')])"
  by (simp add: statement_simps cursor_simps eval_nat_numeral)

text \<open>
  Beyond the range of the theorem the rounded sum decides: at precedence \<open>2\<^sup>5\<^sup>3\<close> the
  right operand of a left-associative operator is parsed with the same minimum
  precedence, and \<^verbatim>\<open>a - b - c\<close> nests to the right.
\<close>

lemma left_associative_at_the_limit:
  "parse 9 [''-'' \<mapsto> (9007199254740992, LeftAssoc)]
     [Token Identifier ''a'' PNull 0 1, Token Operator ''-'' PNull 2 3,
      Token Identifier ''b'' PNull 4 5, Token Operator ''-'' PNull 6 7,
      Token Identifier ''c'' PNull 8 9, Token EOF [] PNull 9 9] =
   (Inr [Expression
      (Binary (Variable (Token Identifier ''a'' PNull 0 1)) (Token Operator ''-'' PNull 2 3)
         (Binary (Variable (Token Identifier ''b'' PNull 4 5)) (Token Operator ''-'' PNull 6 7)
            (Variable (Token Identifier ''c'' PNull 8 9)) 9007199254740992)
         9007199254740992)], [])"
  by (simp add: statement_simps cursor_simps number_add_rounds eval_nat_numeral)

subsection \<open>The precedence guard of sections\<close>

lemma fuel_13: "13 \<le> n \<Longrightarrow> \<exists>m. n = Suc (Suc (Suc (Suc (Suc (Suc (Suc (Suc (Suc (Suc (Suc (Suc (Suc m))))))))))))"
  by (rule exI [of _ "n - 13"]) simp

lemma left_section_guard:
  assumes "ttype lp = LeftParen" "ttype op = Operator" "ttype rp = RightParen"
    and "ops (lexeme op) = Some (p, asc)"
    and "ttype (peek ts) \<noteq> RightParen"
    and "expression k ops 0 ts = Inr (e, rp # rest)"
  shows "grouping (Suc k) ops (lp # op # ts) =
     (if binary_below e p then Inl (ParseError (TokenSource op) section_precedence)
      else Inr (Grouping lp (Section op e LeftSide) rp, rest))"
  using assms by (simp add: cursor_simps consume_def Let_def check_def)

lemma right_section_guard:
  assumes "ttype lp = LeftParen" "ttype op = Operator" "ttype rp = RightParen"
    and "ops (lexeme op) = Some (p, asc)"
    and "ttype (peek ts) \<noteq> RightParen" "ttype (peek ts) \<noteq> Operator"
    and "expression k ops 0 ts = Inr (e, op # rp # rest)"
  shows "grouping (Suc k) ops (lp # ts) =
     (if binary_below e p then Inl (ParseError (TokenSource op) section_precedence)
      else Inr (Grouping lp (Section op e RightSide) rp, rest))"
  using assms by (simp add: cursor_simps consume_def Let_def check_def advance_def isAtEnd_def)

lemma left_section_of_binary:
  assumes "ttype lp = LeftParen" "ttype op = Operator" "ttype rp = RightParen"
    and "ops (lexeme op) = Some (p, asc)"
    and "is_operand a" "ttype inner = Operator" "is_operand b"
    and "ops (lexeme inner) = Some (q, asc')" "0 \<le> q" "ttype eof = EOF"
    and "13 \<le> n"
  shows "parse n ops [lp, op, a, inner, b, rp, eof] =
       (if q < p then (Inr [], [(TokenSource op, section_precedence)])
        else (Inr [Expression (Grouping lp
                (Section op (Binary (operand a) inner (operand b) q) LeftSide) rp)], []))"
proof -
  from \<open>13 \<le> n\<close> obtain m
    where n: "n = Suc (Suc (Suc (Suc (Suc (Suc (Suc (Suc (Suc (Suc (Suc (Suc (Suc m))))))))))))"
    using fuel_13 by blast
  show ?thesis
    using assms(1-10) unfolding n is_operand_def
    by (elim disjE) (simp_all add: statement_simps cursor_simps)
qed

lemma right_section_of_binary:
  assumes "ttype lp = LeftParen" "ttype op = Operator" "ttype rp = RightParen"
    and "ops (lexeme op) = Some (p, asc)"
    and "is_operand a" "ttype inner = Operator" "is_operand b"
    and "ops (lexeme inner) = Some (q, asc')" "0 \<le> q" "ttype eof = EOF"
    and "13 \<le> n"
  shows "parse n ops [lp, a, inner, b, op, rp, eof] =
       (if q < p then (Inr [], [(TokenSource op, section_precedence)])
        else (Inr [Expression (Grouping lp
                (Section op (Binary (operand a) inner (operand b) q) RightSide) rp)], []))"
proof -
  from \<open>13 \<le> n\<close> obtain m
    where n: "n = Suc (Suc (Suc (Suc (Suc (Suc (Suc (Suc (Suc (Suc (Suc (Suc (Suc m))))))))))))"
    using fuel_13 by blast
  show ?thesis
    using assms(1-10) unfolding n is_operand_def
    by (elim disjE) (simp_all add: statement_simps cursor_simps)
qed

lemma section_of_grouping:
  assumes "ttype lp = LeftParen" "ttype op = Operator" "ttype rp = RightParen"
    and "ops (lexeme op) = Some (p, asc)"
    and "is_operand a" "ttype inner = Operator" "is_operand b"
    and "ops (lexeme inner) = Some (q, asc')" "0 \<le> q" "ttype eof = EOF"
    and "13 \<le> n"
  shows "parse n ops [lp, op, lp, a, inner, b, rp, rp, eof] =
       (Inr [Expression (Grouping lp
               (Section op (Grouping lp (Binary (operand a) inner (operand b) q) rp) LeftSide)
               rp)], [])"
proof -
  from \<open>13 \<le> n\<close> obtain m
    where n: "n = Suc (Suc (Suc (Suc (Suc (Suc (Suc (Suc (Suc (Suc (Suc (Suc (Suc m))))))))))))"
    using fuel_13 by blast
  show ?thesis
    using assms(1-10) unfolding n is_operand_def
    by (elim disjE) (simp_all add: statement_simps cursor_simps)
qed

text \<open>
  C4, as the code has it. Between the parentheses of a section, \<^verbatim>\<open>grouping\<close> parses one
  \<^verbatim>\<open>expression(0)\<close>; when that expression is itself a \<^verbatim>\<open>Binary\<close> node whose cached
  precedence is strictly below the table precedence of the section operator, the result
  is a \<^verbatim>\<open>ParseError\<close> on the operator, for a left section (first part) and for a right
  section (second part); otherwise the section is built. So \<^verbatim>\<open>(op a + b)\<close> and
  \<^verbatim>\<open>(a + b op)\<close>, with operands \<^verbatim>\<open>a\<close> and \<^verbatim>\<open>b\<close> of one token and \<^verbatim>\<open>+\<close> at a precedence
  that is not negative, are rejected exactly when the precedence of \<^verbatim>\<open>op\<close> is greater
  than that of \<^verbatim>\<open>+\<close> (third and fourth part; the depth bound is 13 or more).
  An operand in parentheses of its own, \<^verbatim>\<open>(op (a + b))\<close>, is a \<^verbatim>\<open>Grouping\<close> node and not
  a \<^verbatim>\<open>Binary\<close> one: it is accepted whatever the precedences are (last part).
\<close>

theorem section_precedence_guard:
  assumes "ttype lp = LeftParen" "ttype op = Operator" "ttype rp = RightParen"
    and "ops (lexeme op) = Some (p, asc)"
    and "is_operand a" "ttype inner = Operator" "is_operand b"
    and "ops (lexeme inner) = Some (q, asc')" "0 \<le> q" "ttype eof = EOF"
    and "13 \<le> n"
  shows
    "(ttype (peek ts) \<noteq> RightParen \<and> expression k ops 0 ts = Inr (e, rp # rest) \<longrightarrow>
        grouping (Suc k) ops (lp # op # ts) =
          (if binary_below e p then Inl (ParseError (TokenSource op) section_precedence)
           else Inr (Grouping lp (Section op e LeftSide) rp, rest)))
     \<and> (ttype (peek ts) \<noteq> RightParen \<and> ttype (peek ts) \<noteq> Operator
          \<and> expression k ops 0 ts = Inr (e, op # rp # rest) \<longrightarrow>
        grouping (Suc k) ops (lp # ts) =
          (if binary_below e p then Inl (ParseError (TokenSource op) section_precedence)
           else Inr (Grouping lp (Section op e RightSide) rp, rest)))
     \<and> parse n ops [lp, op, a, inner, b, rp, eof] =
         (if q < p then (Inr [], [(TokenSource op, section_precedence)])
          else (Inr [Expression (Grouping lp
                  (Section op (Binary (operand a) inner (operand b) q) LeftSide) rp)], []))
     \<and> parse n ops [lp, a, inner, b, op, rp, eof] =
         (if q < p then (Inr [], [(TokenSource op, section_precedence)])
          else (Inr [Expression (Grouping lp
                  (Section op (Binary (operand a) inner (operand b) q) RightSide) rp)], []))
     \<and> parse n ops [lp, op, lp, a, inner, b, rp, rp, eof] =
         (Inr [Expression (Grouping lp
            (Section op (Grouping lp (Binary (operand a) inner (operand b) q) rp) LeftSide)
            rp)], [])"
proof (intro conjI impI)
  assume "ttype (peek ts) \<noteq> RightParen \<and> expression k ops 0 ts = Inr (e, rp # rest)"
  then show "grouping (Suc k) ops (lp # op # ts) =
          (if binary_below e p then Inl (ParseError (TokenSource op) section_precedence)
           else Inr (Grouping lp (Section op e LeftSide) rp, rest))"
    using assms(1-4) by (intro left_section_guard) auto
next
  assume "ttype (peek ts) \<noteq> RightParen \<and> ttype (peek ts) \<noteq> Operator
          \<and> expression k ops 0 ts = Inr (e, op # rp # rest)"
  then show "grouping (Suc k) ops (lp # ts) =
          (if binary_below e p then Inl (ParseError (TokenSource op) section_precedence)
           else Inr (Grouping lp (Section op e RightSide) rp, rest))"
    using assms(1-4) by (intro right_section_guard) auto
qed (rule left_section_of_binary right_section_of_binary section_of_grouping, fact+)+

text \<open>
  The theorem at \<^verbatim>\<open>(* a + b)\<close> with \<^verbatim>\<open>+\<close> at 6 and \<^verbatim>\<open>*\<close> at 7: the statement is
  rejected, and so is the group by itself.
\<close>

theorem section_precedence_guard_witness:
  "parse 13 [''+'' \<mapsto> (6, LeftAssoc), ''*'' \<mapsto> (7, LeftAssoc)]
     [Token LeftParen ''('' PNull 0 1, Token Operator ''*'' PNull 1 2,
      Token Identifier ''a'' PNull 3 4, Token Operator ''+'' PNull 5 6,
      Token Identifier ''b'' PNull 7 8, Token RightParen '')'' PNull 8 9,
      Token EOF [] PNull 9 9] =
     (Inr [], [(TokenSource (Token Operator ''*'' PNull 1 2), section_precedence)])
   \<and> grouping 12 [''+'' \<mapsto> (6, LeftAssoc), ''*'' \<mapsto> (7, LeftAssoc)]
     [Token LeftParen ''('' PNull 0 1, Token Operator ''*'' PNull 1 2,
      Token Identifier ''a'' PNull 3 4, Token Operator ''+'' PNull 5 6,
      Token Identifier ''b'' PNull 7 8, Token RightParen '')'' PNull 8 9,
      Token EOF [] PNull 9 9] =
     Inl (ParseError (TokenSource (Token Operator ''*'' PNull 1 2)) section_precedence)"
  using section_precedence_guard
    [of "Token LeftParen ''('' PNull 0 1" "Token Operator ''*'' PNull 1 2"
        "Token RightParen '')'' PNull 8 9"
        "[''+'' \<mapsto> (6, LeftAssoc), ''*'' \<mapsto> (7, LeftAssoc)]" 7 LeftAssoc
        "Token Identifier ''a'' PNull 3 4" "Token Operator ''+'' PNull 5 6"
        "Token Identifier ''b'' PNull 7 8" 6 LeftAssoc "Token EOF [] PNull 9 9" 13
        "[Token Identifier ''a'' PNull 3 4, Token Operator ''+'' PNull 5 6,
          Token Identifier ''b'' PNull 7 8, Token RightParen '')'' PNull 8 9,
          Token EOF [] PNull 9 9]" 11
        "Binary (Variable (Token Identifier ''a'' PNull 3 4)) (Token Operator ''+'' PNull 5 6)
           (Variable (Token Identifier ''b'' PNull 7 8)) 6"
        "[Token EOF [] PNull 9 9]"]
  by (simp add: statement_simps cursor_simps is_operand_def eval_nat_numeral)

text \<open>
  C4 as stated fails on the text \<^verbatim>\<open>(* (a + b))\<close> with \<^verbatim>\<open>*\<close> at 7 and \<^verbatim>\<open>+\<close> at 6: the
  section is accepted.
\<close>

theorem parenthesised_operand_counterexample:
  "parse 20 [''+'' \<mapsto> (6, LeftAssoc), ''*'' \<mapsto> (7, LeftAssoc)]
     [Token LeftParen ''('' PNull 0 1, Token Operator ''*'' PNull 1 2,
      Token LeftParen ''('' PNull 3 4,
      Token Identifier ''a'' PNull 4 5, Token Operator ''+'' PNull 6 7,
      Token Identifier ''b'' PNull 8 9, Token RightParen '')'' PNull 9 10,
      Token RightParen '')'' PNull 10 11, Token EOF [] PNull 11 11] =
   (Inr [Expression
      (Grouping (Token LeftParen ''('' PNull 0 1)
         (Section (Token Operator ''*'' PNull 1 2)
            (Grouping (Token LeftParen ''('' PNull 3 4)
               (Binary (Variable (Token Identifier ''a'' PNull 4 5))
                  (Token Operator ''+'' PNull 6 7)
                  (Variable (Token Identifier ''b'' PNull 8 9)) 6)
               (Token RightParen '')'' PNull 9 10))
            LeftSide)
         (Token RightParen '')'' PNull 10 11))], [])"
  by (simp add: statement_simps cursor_simps eval_nat_numeral)

subsection \<open>What the parser functions throw\<close>









subsection \<open>The depth bound\<close>








lemma functionTerm_not_end: "peekFunctionTerm ts \<Longrightarrow> \<not> isAtEnd ts"
  by (auto simp: isAtEnd_def peekFunctionTerm_def Let_def)

















subsection \<open>The error policy of \<^verbatim>\<open>parse\<close>\<close>







section \<open>Properties of the interpreter\<close>

subsection \<open>Sequences of computations\<close>

declare call_section.simps [simp del]

lemma andThen_return [simp]: "andThen (return a) k = k a"
  by (cases "k a") (simp add: andThen_def return_def)

lemma andThen_throw [simp]: "andThen (throw x) k = throw x"
  by (simp add: andThen_def throw_def)

lemma andThen_assoc [simp]: "andThen (andThen m k) k' = andThen m (\<lambda>a. andThen (k a) k')"
  by (auto simp: andThen_def split: prod.splits sum.splits)

lemma andThen_return_right [simp]: "andThen m return = m"
  by (auto simp: andThen_def return_def split: prod.splits sum.splits)

lemma andThen_value: "m = (es, Inr a) \<Longrightarrow> andThen m k = (es @ fst (k a), snd (k a))"
  by (auto simp: andThen_def split: prod.splits)

lemma andThen_failure: "m = (es, Inl x) \<Longrightarrow> andThen m k = (es, Inl x)"
  by (simp add: andThen_def)

subsection \<open>Calls along a spine\<close>

text \<open>
  On a variable or a section \<^verbatim>\<open>curry\<close> is \<^verbatim>\<open>evaluate\<close>, with the value seen as something to
  call.
\<close>

lemma curry_callee:
  "callee e \<Longrightarrow> andThen (curry h b e) (\<lambda>f. k f) = andThen (evaluate h b e) (\<lambda>f. k (call h b f))"
  by (cases e) (simp_all add: call_def[abs_def])

lemma curry_unwind:
  "callee (spine_base l) \<Longrightarrow>
     andThen (curry h b l) (\<lambda>f. f args) = unwind h b (spine_base l) (rev (spine_operands l)) args"
proof (induction l arbitrary: args)
  case (Application l r)
  then show ?case by simp
next
  case (Grouping lp e rp)
  then show ?case by simp
next
  case (Variable name)
  then show ?case by (simp add: call_def)
next
  case (Section operator e s)
  then show ?case by (simp add: call_def)
qed simp_all

lemma evaluate_application_base:
  assumes "callee (spine_base l)" "spine_operands l = []"
  shows "evaluate h b (Application l r) =
     andThen (evaluate h b (spine_base l)) (\<lambda>f.
     andThen (evaluate h b r) (\<lambda>right. call h b f [right]))"
  using assms
proof (induction l)
  case (Variable name)
  then show ?case by (simp add: call_def)
next
  case (Section operator e s)
  then show ?case by (simp add: call_def)
qed simp_all

lemma evaluate_application_spine:
  assumes "callee (spine_base l)" "spine_operands l = as @ [a]"
  shows "evaluate h b (Application l r) =
     andThen (evaluate h b a) (\<lambda>arg.
     andThen (evaluate h b r) (\<lambda>right.
       unwind h b (spine_base l) (rev as) [arg, right]))"
  using assms
proof (induction l)
  case (Application l' a')
  then show ?case by (simp add: curry_unwind)
qed simp_all

lemma unwind_items:
  "unwind h b base as args =
     andThen (evaluate_items h b as) (\<lambda>vs.
     andThen (evaluate h b base) (\<lambda>f. call h b f (rev vs @ args)))"
  by (induction as arbitrary: args) simp_all

lemma mset_concat_rev: "mset (concat (map g (rev xs))) = mset (concat (map g xs))"
  by (induction xs) simp_all

lemma andThen_snd_value:
  assumes "snd m = Inr a"
  shows "andThen m k = (fst m @ fst (k a), snd (k a))"
  using assms by (cases m) (simp add: andThen_value)

lemma unwind_values:
  assumes "list_all2 (\<lambda>a v. snd (evaluate h b a) = Inr v) as vs"
    and "snd (evaluate h b base) = Inr f"
  shows "unwind h b base as args =
     (concat (map (\<lambda>a. fst (evaluate h b a)) as) @ fst (evaluate h b base)
        @ fst (call h b f (rev vs @ args)),
      snd (call h b f (rev vs @ args)))"
  using assms(1)
proof (induction as vs arbitrary: args rule: list_all2_induct)
  case Nil
  then show ?case using assms(2) by (simp add: andThen_snd_value)
next
  case (Cons a as v vs)
  then show ?case by (simp add: andThen_snd_value)
qed

lemma call_host_function: "fst (call h b (Host (HFunc g)) vs) = [Invoke g vs]"
  by (simp add: call_def call_host_def invoke_def andThen_def emit_def throw_def return_def
      split: sum.splits)

lemmas example_simps =
  example_host_def example_bindings_def ident_def variable_value_def call_def call_host_def
  invoke_def andThen_def emit_def return_def throw_def call_section.simps undefined_variable_def
  entry_value_def entry_receiver_def call_entry_def invoke_method_def object_prototype_def

lemmas batch_simps = interpret_batch_def execute_def stringify_def

lemma application_call:
  assumes "callee (spine_base l)"
    and "snd (evaluate h b (spine_base l)) = Inr f"
    and "list_all2 (\<lambda>a v. snd (evaluate h b a) = Inr v) (spine_operands l @ [r]) vs"
  shows "\<exists>pre. evaluate h b (Application l r) = (pre @ fst (call h b f vs), snd (call h b f vs))
     \<and> mset pre = mset (fst (evaluate h b (spine_base l)))
          + mset (concat (map (\<lambda>a. fst (evaluate h b a)) (spine_operands l @ [r])))
     \<and> (case f of Host (HFunc g) \<Rightarrow> fst (call h b f vs) = [Invoke g vs] | _ \<Rightarrow> True)"
proof (cases "spine_operands l" rule: rev_cases)
  case Nil
  with assms(3) obtain v where vs: "vs = [v]" and v: "snd (evaluate h b r) = Inr v"
    by (auto simp: list_all2_Cons1)
  have "evaluate h b (Application l r) =
      ((fst (evaluate h b (spine_base l)) @ fst (evaluate h b r)) @ fst (call h b f vs),
       snd (call h b f vs))"
    using assms(1,2) Nil v
    by (simp add: evaluate_application_base andThen_snd_value vs del: evaluate.simps)
  then show ?thesis using Nil
    by (intro exI conjI)
       (assumption, simp, simp add: call_host_function split: val.splits hval.splits)
next
  case (snoc as a)
  with assms(3) obtain ws v w where vs: "vs = ws @ [v, w]"
    and ws: "list_all2 (\<lambda>a v. snd (evaluate h b a) = Inr v) as ws"
    and v: "snd (evaluate h b a) = Inr v" and w: "snd (evaluate h b r) = Inr w"
    by (auto simp: list_all2_append1 list_all2_Cons1)
  from ws have rws: "list_all2 (\<lambda>a v. snd (evaluate h b a) = Inr v) (rev as) (rev ws)"
    by simp
  have "evaluate h b (Application l r) =
      ((fst (evaluate h b a) @ fst (evaluate h b r)
          @ concat (map (\<lambda>a. fst (evaluate h b a)) (rev as))
          @ fst (evaluate h b (spine_base l))) @ fst (call h b f vs),
       snd (call h b f vs))"
    using assms(1) snoc v w
    by (simp add: evaluate_application_spine andThen_snd_value
        unwind_values [OF rws assms(2)] vs del: evaluate.simps)
  then show ?thesis using snoc
    by (intro exI conjI)
       (assumption, simp add: mset_concat_rev,
        simp add: call_host_function split: val.splits hval.splits)
qed

text \<open>
  C2. Take an expression that is a spine over a variable or a section, the base, with at
  least one operand, whatever parentheses stand around the applications; suppose the base
  evaluates to the value \<open>f\<close> and the operands of the spine, the leftmost first, evaluate
  to the values \<open>vs\<close>. Then the expression evaluates to what the one call of \<open>f\<close> with
  all of \<open>vs\<close>, in that order, evaluates to. The events before the call are those of
  evaluating the base and each operand, each once; the events of the call follow, and
  nothing else. When \<open>f\<close> is a callable of the host, the events of the call are the one
  invocation of it with \<open>vs\<close>.
\<close>

theorem application_flattening:
  assumes "callee (spine_base e)" and "spine_operands e \<noteq> []"
    and "snd (evaluate h b (spine_base e)) = Inr f"
    and "list_all2 (\<lambda>a v. snd (evaluate h b a) = Inr v) (spine_operands e) vs"
  shows "\<exists>pre. evaluate h b e = (pre @ fst (call h b f vs), snd (call h b f vs))
     \<and> mset pre = mset (fst (evaluate h b (spine_base e)))
          + mset (concat (map (\<lambda>a. fst (evaluate h b a)) (spine_operands e)))
     \<and> (case f of Host (HFunc g) \<Rightarrow> fst (call h b f vs) = [Invoke g vs] | _ \<Rightarrow> True)"
  using assms
proof (induction e)
  case (Application l r)
  then show ?case
    using application_call [of l h b f r vs] by (simp del: evaluate.simps)
next
  case (Grouping lp e rp)
  then show ?case by simp
qed simp_all

text \<open>The theorem at \<^verbatim>\<open>(f x) y z\<close> in the example bindings.\<close>

theorem application_flattening_witness:
  "\<exists>pre. evaluate example_host example_bindings
      (Application
         (Application
            (Grouping (Token LeftParen ''('' PNull 0 1)
               (Application (Variable (ident ''f'')) (Variable (ident ''x'')))
               (Token RightParen '')'' PNull 4 5))
            (Variable (ident ''y'')))
         (Variable (ident ''z''))) =
      (pre @ [Invoke (Fn 0) [Host (HPrim (PNumber 1)), Host (HPrim (PNumber 2)),
                              Host (HPrim (PNumber 3))]],
       Inr (Host HUndefined))
    \<and> mset pre = {#Lookup ''f'', Lookup ''x'', Lookup ''y'', Lookup ''z''#}"
  using application_flattening
    [of "Application
           (Application
              (Grouping (Token LeftParen ''('' PNull 0 1)
                 (Application (Variable (ident ''f'')) (Variable (ident ''x'')))
                 (Token RightParen '')'' PNull 4 5))
              (Variable (ident ''y'')))
           (Variable (ident ''z''))"
        example_host example_bindings "Host (HFunc (Fn 0))"
        "[Host (HPrim (PNumber 1)), Host (HPrim (PNumber 2)), Host (HPrim (PNumber 3))]"]
  by (simp add: example_simps)

text \<open>
  C5, as the code has it. An application over a spine whose base is a variable or a
  section evaluates each operand once, before the base is called with all the values.
  With one operand the base is evaluated first and the operand second. With two or more
  operands \<open>a\<^sub>1 \<dots> a\<^sub>n\<close> the order is \<open>a\<^sub>n\<^sub>-\<^sub>1\<close>, \<open>a\<^sub>n\<close>, then \<open>a\<^sub>n\<^sub>-\<^sub>2\<close> down to
  \<open>a\<^sub>1\<close>, and the base last: the application evaluates like the list of the operands in
  that order (a permutation of the operands), then the base, then the call with the values
  put back in the order of the operands.
\<close>

theorem application_evaluation_order:
  assumes "callee (spine_base l)"
  shows "evaluate h b (Application l r) =
     (if spine_operands l = [] then
        andThen (evaluate h b (spine_base l)) (\<lambda>f.
        andThen (evaluate h b r) (\<lambda>v. call h b f [v]))
      else
        andThen (evaluate_items h b
                   (last (spine_operands l) # r # rev (butlast (spine_operands l)))) (\<lambda>vs.
        andThen (evaluate h b (spine_base l)) (\<lambda>f.
          call h b f (rev (drop 2 vs) @ take 2 vs))))
     \<and> (spine_operands l \<noteq> [] \<longrightarrow>
          mset (last (spine_operands l) # r # rev (butlast (spine_operands l))) =
          mset (spine_operands (Application l r)))"
proof (cases "spine_operands l" rule: rev_cases)
  case Nil
  with assms show ?thesis
    by (simp add: evaluate_application_base del: evaluate.simps)
next
  case (snoc as a)
  with assms show ?thesis
    by (simp add: evaluate_application_spine unwind_items del: evaluate.simps)
qed

text \<open>
  The theorem at \<^verbatim>\<open>f x (y - z) z\<close> in the example bindings: the events of \<^verbatim>\<open>(y - z)\<close>
  come first, the read of \<^verbatim>\<open>x\<close> after that of \<^verbatim>\<open>z\<close>.
\<close>

theorem application_evaluation_order_witness:
  "evaluate example_host example_bindings
      (Application (Application (Application (Variable (ident ''f'')) (Variable (ident ''x'')))
         (Grouping (Token LeftParen ''('' PNull 4 5)
            (Binary (Variable (ident ''y'')) (Token Operator ''-'' PNull 6 7)
               (Variable (ident ''z'')) 6)
            (Token RightParen '')'' PNull 9 10)))
         (Variable (ident ''z''))) =
   andThen (evaluate_items example_host example_bindings
      [Grouping (Token LeftParen ''('' PNull 4 5)
            (Binary (Variable (ident ''y'')) (Token Operator ''-'' PNull 6 7)
               (Variable (ident ''z'')) 6)
            (Token RightParen '')'' PNull 9 10),
       Variable (ident ''z''), Variable (ident ''x'')])
     (\<lambda>vs. andThen (evaluate example_host example_bindings (Variable (ident ''f'')))
        (\<lambda>f. call example_host example_bindings f (rev (drop 2 vs) @ take 2 vs)))
   \<and> fst (evaluate example_host example_bindings
      (Application (Application (Application (Variable (ident ''f'')) (Variable (ident ''x'')))
         (Grouping (Token LeftParen ''('' PNull 4 5)
            (Binary (Variable (ident ''y'')) (Token Operator ''-'' PNull 6 7)
               (Variable (ident ''z'')) 6)
            (Token RightParen '')'' PNull 9 10)))
         (Variable (ident ''z'')))) =
      [Lookup ''y'', Lookup ''z'', Lookup ''-'',
       InvokeMethod (Entry (HFunc (Fn 1))) (Fn 1)
         [Host (HPrim (PNumber 2)), Host (HPrim (PNumber 3))],
       Lookup ''z'', Lookup ''x'', Lookup ''f'',
       Invoke (Fn 0) [Host (HPrim (PNumber 1)), Host (HPrim (PNumber (- 1))),
                      Host (HPrim (PNumber 3))]]"
  using application_evaluation_order
    [of "Application (Application (Variable (ident ''f'')) (Variable (ident ''x'')))
         (Grouping (Token LeftParen ''('' PNull 4 5)
            (Binary (Variable (ident ''y'')) (Token Operator ''-'' PNull 6 7)
               (Variable (ident ''z'')) 6)
            (Token RightParen '')'' PNull 9 10))"
        example_host example_bindings "Variable (ident ''z'')"]
  by (simp add: example_simps)

text \<open>
  C5 as stated fails at \<^verbatim>\<open>f x y z\<close>: \<^verbatim>\<open>y\<close> and \<^verbatim>\<open>z\<close> are read before \<^verbatim>\<open>x\<close>; and at
  \<^verbatim>\<open>f u v w\<close> with none of the operands bound the error is the one of \<^verbatim>\<open>v\<close>, not the one
  of the leftmost operand \<^verbatim>\<open>u\<close>.
\<close>

theorem right_operand_first_counterexample:
  "evaluate example_host example_bindings
      (Application (Application (Application (Variable (ident ''f'')) (Variable (ident ''x'')))
         (Variable (ident ''y''))) (Variable (ident ''z''))) =
     ([Lookup ''y'', Lookup ''z'', Lookup ''x'', Lookup ''f'',
       Invoke (Fn 0) [Host (HPrim (PNumber 1)), Host (HPrim (PNumber 2)),
                      Host (HPrim (PNumber 3))]],
      Inr (Host HUndefined))
   \<and> evaluate example_host example_bindings
      (Application (Application (Application (Variable (ident ''f'')) (Variable (ident ''u'')))
         (Variable (ident ''v''))) (Variable (ident ''w''))) =
     ([Lookup ''v''], Inl (RuntimeError (ident ''v'') (undefined_variable ''v'')))"
  by (simp add: example_simps)

subsection \<open>Sections\<close>

text \<open>
  C3, as the code has it. Let the operator be bound to a value that does not depend on its
  receiver: when it is a callable, called as a method of its entry it returns, or throws,
  what it returns or throws when called without a receiver with the same arguments. Let
  the expression \<open>ye\<close> evaluate to the value \<open>y\<close>.
  Evaluating the left section of the operator and \<open>x\<close> gives a callable, and calling it
  with \<open>y\<close> gives what the binary expression with \<open>ye\<close> on the left and \<open>x\<close> on the right
  gives; for the right section, what the binary expression with \<open>x\<close> on the left and
  \<open>ye\<close> on the right gives. Both sides give the same value, or throw the same value.
\<close>

theorem section_round_trip:
  assumes "b (lexeme operator) = Some opFunc"
    and "evaluate h b ye = (es, Inr y)"
    and "\<And>g args. opFunc = HFunc g \<Longrightarrow> call_method h (Entry opFunc) g args = call_fn h g args"
  shows "evaluate h b (Section operator x LeftSide) = return (Closure operator x LeftSide)
     \<and> snd (call h b (Closure operator x LeftSide) [y]) =
         snd (evaluate h b (Binary ye operator x p))
     \<and> evaluate h b (Section operator x RightSide) = return (Closure operator x RightSide)
     \<and> snd (call h b (Closure operator x RightSide) [y]) =
         snd (evaluate h b (Binary x operator ye p))"
proof -
  obtain xs rx where x: "evaluate h b x = (xs, rx)"
    by (cases "evaluate h b x") auto
  have same: "snd (call_entry h (Entry opFunc) opFunc args) = snd (call_host h opFunc args)"
    for args
    using assms(3)
    by (cases opFunc)
       (simp_all add: call_entry_def call_host_def invoke_def invoke_method_def andThen_def
          emit_def throw_def return_def split: sum.splits)
  show ?thesis
  proof (cases rx)
    case (Inl t)
    with assms(1,2) x show ?thesis
      by (simp add: call_def call_section.simps andThen_def emit_def throw_def entry_value_def)
  next
    case (Inr v)
    with assms(1,2) x same [of "[y, v]"] same [of "[v, y]"] show ?thesis
      by (auto simp: call_def call_section.simps andThen_def emit_def entry_value_def
          entry_receiver_def split: prod.splits)
  qed
qed

text \<open>The theorem at \<^verbatim>\<open>(- x)\<close> and \<^verbatim>\<open>(x -)\<close> applied to 3, with \<^verbatim>\<open>x\<close> bound to 1.\<close>

theorem section_round_trip_witness:
  "snd (call example_host example_bindings
          (Closure (Token Operator ''-'' PNull 1 2) (Variable (ident ''x'')) LeftSide)
          [Host (HPrim (PNumber 3))]) = Inr (Host (HPrim (PNumber 2)))
   \<and> snd (evaluate example_host example_bindings
          (Binary (Variable (ident ''z'')) (Token Operator ''-'' PNull 1 2)
             (Variable (ident ''x'')) 6)) = Inr (Host (HPrim (PNumber 2)))
   \<and> snd (call example_host example_bindings
          (Closure (Token Operator ''-'' PNull 1 2) (Variable (ident ''x'')) RightSide)
          [Host (HPrim (PNumber 3))]) = Inr (Host (HPrim (PNumber (- 2))))
   \<and> snd (evaluate example_host example_bindings
          (Binary (Variable (ident ''x'')) (Token Operator ''-'' PNull 1 2)
             (Variable (ident ''z'')) 6)) = Inr (Host (HPrim (PNumber (- 2))))"
  using section_round_trip
    [of example_bindings "Token Operator ''-'' PNull 1 2" "HFunc (Fn 1)" example_host
        "Variable (ident ''z'')" "[Lookup ''z'']" "Host (HPrim (PNumber 3))"
        "Variable (ident ''x'')" 6]
  by (simp add: example_simps)

text \<open>
  C3 as stated, for every callable, fails for one that reads \<^verbatim>\<open>this\<close>. The binary
  expression calls the value of the operator as a method of its entry, and the section
  calls it without a receiver: with \<^verbatim>\<open>-\<close> bound to a callable that returns 1 when it has
  a receiver and 0 when it has none, \<^verbatim>\<open>(- x)\<close> applied to 3 gives 0 and \<^verbatim>\<open>z - x\<close>, with
  \<^verbatim>\<open>z\<close> bound to 3, gives 1.
\<close>

theorem receiver_counterexample:
  "snd (call receiver_host example_bindings
          (Closure (Token Operator ''-'' PNull 1 2) (Variable (ident ''x'')) LeftSide)
          [Host (HPrim (PNumber 3))]) = Inr (Host (HPrim (PNumber 0)))
   \<and> evaluate receiver_host example_bindings (Variable (ident ''z'')) =
       ([Lookup ''z''], Inr (Host (HPrim (PNumber 3))))
   \<and> snd (evaluate receiver_host example_bindings
          (Binary (Variable (ident ''z'')) (Token Operator ''-'' PNull 1 2)
             (Variable (ident ''x'')) 6)) = Inr (Host (HPrim (PNumber 1)))"
  by (simp add: receiver_host_def example_simps)

text \<open>
  C9, as the code has it. Evaluating a section returns the callable and does nothing else:
  it reads no binding, evaluates nothing and cannot throw. Each call of the callable, in
  the bindings \<open>b'\<close> of the time of the call, first reads the operator (a \<^verbatim>\<open>TypeError\<close> when
  the bindings have no property of that name, own or inherited; what the read of an
  inherited property throws, if it throws), then evaluates the operand expression, then
  calls the operator with the input and the operand, in the order of the side.
\<close>

theorem section_operand_deferred:
  "evaluate h b (Section operator e s) = return (Closure operator e s)
   \<and> call h b' (Closure operator e s) (input # rest) =
       andThen (emit (Lookup (lexeme operator))) (\<lambda>_.
         case entry_value h b' (lexeme operator) of
           None \<Rightarrow> throw TypeError
         | Some (Inl x) \<Rightarrow> throw x
         | Some (Inr opFunc) \<Rightarrow>
             andThen (evaluate h b' e) (\<lambda>operand.
               if s = LeftSide then call_host h opFunc [input, operand]
               else call_host h opFunc [operand, input]))"
  by (simp add: call_def call_section.simps)

text \<open>
  The theorem at \<^verbatim>\<open>(- x)\<close>, called with 3 after \<^verbatim>\<open>x\<close> has been bound to 10: the operand
  is the value of \<^verbatim>\<open>x\<close> at the call.
\<close>

theorem section_operand_deferred_witness:
  "evaluate example_host example_bindings
     (Section (Token Operator ''-'' PNull 1 2) (Variable (ident ''x'')) LeftSide) =
     ([], Inr (Closure (Token Operator ''-'' PNull 1 2) (Variable (ident ''x'')) LeftSide))
   \<and> call example_host (example_bindings(''x'' \<mapsto> HPrim (PNumber 10)))
       (Closure (Token Operator ''-'' PNull 1 2) (Variable (ident ''x'')) LeftSide)
       [Host (HPrim (PNumber 3))] =
     ([Lookup ''-'', Lookup ''x'',
       Invoke (Fn 1) [Host (HPrim (PNumber 3)), Host (HPrim (PNumber 10))]],
      Inr (Host (HPrim (PNumber (- 7)))))"
  using section_operand_deferred
    [of example_host example_bindings "Token Operator ''-'' PNull 1 2" "Variable (ident ''x'')"
        LeftSide "example_bindings(''x'' \<mapsto> HPrim (PNumber 10))" "Host (HPrim (PNumber 3))" "[]"]
  by (simp add: example_simps)

text \<open>
  C9 as stated fails at \<^verbatim>\<open>(- q)\<close> with \<^verbatim>\<open>q\<close> unbound. Evaluating the operand throws, but
  evaluating the section does not and reads nothing: the operand is not evaluated when the
  section is created. It is evaluated, and throws, in the call.
\<close>

theorem section_operand_counterexample:
  "evaluate example_host example_bindings (Variable (ident ''q'')) =
     ([Lookup ''q''], Inl (RuntimeError (ident ''q'') (undefined_variable ''q'')))
   \<and> evaluate example_host example_bindings
     (Section (Token Operator ''-'' PNull 1 2) (Variable (ident ''q'')) LeftSide) =
     ([], Inr (Closure (Token Operator ''-'' PNull 1 2) (Variable (ident ''q'')) LeftSide))
   \<and> call example_host example_bindings
       (Closure (Token Operator ''-'' PNull 1 2) (Variable (ident ''q'')) LeftSide)
       [Host (HPrim (PNumber 3))] =
     ([Lookup ''-'', Lookup ''q''], Inl (RuntimeError (ident ''q'') (undefined_variable ''q'')))"
  by (simp add: example_simps)

subsection \<open>Batches of statements\<close>

lemma interpret_loop_append:
  "interpret_loop h (pre @ post) st =
     (case interpret_loop h pre st of
        (es, None, st') \<Rightarrow> (case interpret_loop h post st' of (es', r) \<Rightarrow> (es @ es', r))
      | (es, Some x, st') \<Rightarrow> (es, Some x, st'))"
proof (induction pre arbitrary: st)
  case Nil
  then show ?case by (simp split: prod.splits)
next
  case (Cons s pre)
  show ?case
    by (simp add: Cons.IH
        split: prod.splits sum.splits val.splits hval.splits option.splits)
qed

lemma interpret_loop_failure:
  "execute h (env st) s = (es, Inl x) \<Longrightarrow> interpret_loop h (s # post) st = (es, Some x, st)"
  by simp

lemma interpret_batch_aborts:
  assumes "interpret_loop h pre \<lparr>env = b, results = []\<rparr> = (es, None, st)"
    and "execute h (env st) s = (es', Inl (RuntimeError token message))"
  shows "interpret_batch h b (pre @ s # post) =
     \<lparr>returned = Inr (results st),
      reported = [(from_pos token, to_pos token, message)],
      final_env = env st, trace = es @ es'\<rparr>"
  using assms by (simp add: interpret_batch_def interpret_loop_append)

lemma interpret_batch_completes:
  assumes "interpret_loop h pre \<lparr>env = b, results = []\<rparr> = (es, None, st)"
  shows "interpret_batch h b pre =
     \<lparr>returned = Inr (results st), reported = [], final_env = env st, trace = es\<rparr>"
  using assms by (simp add: interpret_batch_def)

lemma unbound_variable:
  "entry_value h b (lexeme name) = None \<Longrightarrow>
     evaluate h b (Variable name) =
       ([Lookup (lexeme name)], Inl (RuntimeError name (undefined_variable (lexeme name))))"
  by (simp add: variable_value_def andThen_def emit_def throw_def)

lemma unbound_operator:
  assumes "entry_value h b (lexeme operator) = None"
    and "evaluate h b l = (es1, Inr v1)" "evaluate h b r = (es2, Inr v2)"
  shows "evaluate h b (Binary l operator r p) =
       (es1 @ es2 @ [Lookup (lexeme operator)],
        Inl (RuntimeError operator ''Operator isn't implemented''))"
  using assms by (simp add: andThen_def emit_def throw_def)

text \<open>
  What the code does for a name that the bindings object does not have, neither as an own
  entry nor as an inherited property. Let the statements \<open>pre\<close> run without throwing and
  leave the bindings and results \<open>st\<close>. Evaluating a variable of such a name throws a
  \<^verbatim>\<open>RuntimeError\<close> with the token of the variable and a message that names it; evaluating
  a binary expression whose operator is such a name, after its operands have been
  evaluated, throws a \<^verbatim>\<open>RuntimeError\<close> with the token of the operator. As the next
  statement of the batch, either is reported once, with the span of its token, and
  whatever statements \<open>post\<close> follow, the batch ends there: the bindings are those of
  \<open>st\<close> and the last event is the read of the name. Whatever its operands do, a binary
  expression with such an operator never gives a value (last part).
\<close>

lemma absent_names_abort_the_batch:
  assumes "interpret_loop h pre \<lparr>env = b, results = []\<rparr> = (es, None, st)"
  shows "(entry_value h (env st) (lexeme name) = None \<longrightarrow>
        evaluate h (env st) (Variable name) =
          ([Lookup (lexeme name)], Inl (RuntimeError name (undefined_variable (lexeme name))))
        \<and> interpret_batch h b (pre @ Expression (Variable name) # post) =
          \<lparr>returned = Inr (results st),
           reported = [(from_pos name, to_pos name, undefined_variable (lexeme name))],
           final_env = env st, trace = es @ [Lookup (lexeme name)]\<rparr>)
     \<and> (entry_value h (env st) (lexeme operator) = None \<and> evaluate h (env st) l = (es1, Inr v1)
          \<and> evaluate h (env st) r = (es2, Inr v2) \<longrightarrow>
        evaluate h (env st) (Binary l operator r p) =
          (es1 @ es2 @ [Lookup (lexeme operator)],
           Inl (RuntimeError operator ''Operator isn't implemented''))
        \<and> interpret_batch h b (pre @ Expression (Binary l operator r p) # post) =
          \<lparr>returned = Inr (results st),
           reported = [(from_pos operator, to_pos operator, ''Operator isn't implemented'')],
           final_env = env st, trace = es @ es1 @ es2 @ [Lookup (lexeme operator)]\<rparr>)
     \<and> (entry_value h (env st) (lexeme operator) = None \<longrightarrow>
          snd (evaluate h (env st) (Binary l operator r p)) \<noteq> Inr v)"
proof (intro conjI impI)
  assume u: "entry_value h (env st) (lexeme name) = None"
  then show v: "evaluate h (env st) (Variable name) =
          ([Lookup (lexeme name)], Inl (RuntimeError name (undefined_variable (lexeme name))))"
    by (rule unbound_variable)
  have "execute h (env st) (Expression (Variable name)) =
      ([Lookup (lexeme name)], Inl (RuntimeError name (undefined_variable (lexeme name))))"
    unfolding execute_def by (simp add: v andThen_failure del: evaluate.simps)
  from interpret_batch_aborts [OF assms this]
  show "interpret_batch h b (pre @ Expression (Variable name) # post) =
          \<lparr>returned = Inr (results st),
           reported = [(from_pos name, to_pos name, undefined_variable (lexeme name))],
           final_env = env st, trace = es @ [Lookup (lexeme name)]\<rparr>" .
next
  assume u: "entry_value h (env st) (lexeme operator) = None
          \<and> evaluate h (env st) l = (es1, Inr v1)
          \<and> evaluate h (env st) r = (es2, Inr v2)"
  then show v: "evaluate h (env st) (Binary l operator r p) =
          (es1 @ es2 @ [Lookup (lexeme operator)],
           Inl (RuntimeError operator ''Operator isn't implemented''))"
    by (intro unbound_operator) auto
  have "execute h (env st) (Expression (Binary l operator r p)) =
      (es1 @ es2 @ [Lookup (lexeme operator)],
           Inl (RuntimeError operator ''Operator isn't implemented''))"
    unfolding execute_def by (simp add: v andThen_failure del: evaluate.simps)
  from interpret_batch_aborts [OF assms this]
  show "interpret_batch h b (pre @ Expression (Binary l operator r p) # post) =
          \<lparr>returned = Inr (results st),
           reported = [(from_pos operator, to_pos operator, ''Operator isn't implemented'')],
           final_env = env st, trace = es @ es1 @ es2 @ [Lookup (lexeme operator)]\<rparr>"
    by simp
next
  assume "entry_value h (env st) (lexeme operator) = None"
  then show "snd (evaluate h (env st) (Binary l operator r p)) \<noteq> Inr v"
    by (simp add: andThen_def emit_def throw_def split: prod.splits sum.splits)
qed

text \<open>
  The batches \<^verbatim>\<open>x; q; y\<close> and \<^verbatim>\<open>x; y + z; y\<close> in the example bindings, which have neither
  \<^verbatim>\<open>q\<close> nor \<^verbatim>\<open>+\<close>, and whose prototype has neither.
\<close>

lemma absent_names_example:
  "interpret_batch example_host example_bindings
     [Expression (Variable (ident ''x'')), Expression (Variable (ident ''q'')),
      Expression (Variable (ident ''y''))] =
     \<lparr>returned = Inr [''1''],
      reported = [(0, 1, undefined_variable ''q'')],
      final_env = example_bindings, trace = [Lookup ''x'', Lookup ''q'']\<rparr>
   \<and> interpret_batch example_host example_bindings
     [Expression (Variable (ident ''x'')),
      Expression (Binary (Variable (ident ''y'')) (Token Operator ''+'' PNull 2 3)
                    (Variable (ident ''z'')) 6),
      Expression (Variable (ident ''y''))] =
     \<lparr>returned = Inr [''1''],
      reported = [(2, 3, ''Operator isn't implemented'')],
      final_env = example_bindings,
      trace = [Lookup ''x'', Lookup ''y'', Lookup ''z'', Lookup ''+'']\<rparr>"
  using absent_names_abort_the_batch
    [of example_host "[Expression (Variable (ident ''x''))]" example_bindings "[Lookup ''x'']"
        "\<lparr>env = example_bindings, results = [''1'']\<rparr>" "ident ''q''"
        "[Expression (Variable (ident ''y''))]" "Token Operator ''+'' PNull 2 3"
        "Variable (ident ''y'')" "[Lookup ''y'']" "Host (HPrim (PNumber 2))"
        "Variable (ident ''z'')" "[Lookup ''z'']" "Host (HPrim (PNumber 3))" 6]
  by (simp add: batch_simps example_simps)

text \<open>
  C7 fails in the code for an unbound name that the bindings object inherits. The test
  \<^verbatim>\<open>expr.name.lexeme in this.bindings\<close> is true for it, so no \<^verbatim>\<open>RuntimeError\<close> is thrown.
  With the bindings an ordinary object that has no entry \<^verbatim>\<open>toString\<close>, in the batch
  \<^verbatim>\<open>toString; x\<close> the variable \<^verbatim>\<open>toString\<close> evaluates to \<^verbatim>\<open>undefined\<close>, nothing is
  reported, and the statement after it is executed: its result is returned.
\<close>

theorem inherited_name_is_not_reported:
  "example_bindings ''toString'' = None
   \<and> evaluate example_host example_bindings (Variable (ident ''toString'')) =
       ([Lookup ''toString''], Inr (Host HUndefined))
   \<and> interpret_batch example_host example_bindings
       [Expression (Variable (ident ''toString'')), Expression (Variable (ident ''x''))] =
       \<lparr>returned = Inr [''1''], reported = [], final_env = example_bindings,
        trace = [Lookup ''toString'', Lookup ''x'']\<rparr>"
  by (simp add: batch_simps example_simps)

text \<open>
  C10. When the statements \<open>pre\<close> run without throwing and the next statement throws a
  \<^verbatim>\<open>RuntimeError\<close>, \<^verbatim>\<open>interpret\<close> returns the results of \<open>pre\<close>, the same list it returns
  for \<open>pre\<close> alone, and has reported the error.
\<close>

theorem partial_results_returned:
  assumes "interpret_loop h pre \<lparr>env = b, results = []\<rparr> = (es, None, st)"
    and "execute h (env st) s = (es', Inl (RuntimeError token message))"
  shows "returned (interpret_batch h b (pre @ s # post)) = Inr (results st)
     \<and> returned (interpret_batch h b pre) = Inr (results st)
     \<and> reported (interpret_batch h b (pre @ s # post)) =
         [(from_pos token, to_pos token, message)]"
  by (simp add: interpret_batch_aborts [OF assms] interpret_batch_completes [OF assms(1)])

text \<open>The theorem at the batch \<^verbatim>\<open>x; y; q; z\<close> with \<^verbatim>\<open>q\<close> unbound.\<close>

theorem partial_results_returned_witness:
  "returned (interpret_batch example_host example_bindings
     [Expression (Variable (ident ''x'')), Expression (Variable (ident ''y'')),
      Expression (Variable (ident ''q'')), Expression (Variable (ident ''z''))]) =
     Inr [''1'', ''2'']
   \<and> returned (interpret_batch example_host example_bindings
     [Expression (Variable (ident ''x'')), Expression (Variable (ident ''y''))]) =
     Inr [''1'', ''2'']
   \<and> reported (interpret_batch example_host example_bindings
     [Expression (Variable (ident ''x'')), Expression (Variable (ident ''y'')),
      Expression (Variable (ident ''q'')), Expression (Variable (ident ''z''))]) =
     [(0, 1, undefined_variable ''q'')]"
  using partial_results_returned
    [of example_host
        "[Expression (Variable (ident ''x'')), Expression (Variable (ident ''y''))]"
        example_bindings "[Lookup ''x'', Lookup ''y'']"
        "\<lparr>env = example_bindings, results = [''1'', ''2'']\<rparr>"
        "Expression (Variable (ident ''q''))" "[Lookup ''q'']" "ident ''q''"
        "undefined_variable ''q''" "[Expression (Variable (ident ''z''))]"]
  by (simp add: batch_simps example_simps)

subsection \<open>Binding statements\<close>



end
